theory Spec2Isabelle
  imports Main
begin

section \<open>Strings as the scraper uses them\<close>

text \<open>
  Python strings are modelled as \<open>string\<close>, a list of \<open>char\<close>: one \<open>char\<close> is one code point
  below 256, and strings with code points from 256 on are outside the model. On code
  points below 256 the character classes are those of Python: \<open>str.lower\<close> folds \<open>A\<close>..\<open>Z\<close>
  and the capitals 192..222 other than the multiplication sign 215; \<open>\\s\<close>, \<open>str.split\<close>
  and \<open>str.strip\<close> treat 9..13, 28..32, 133 and 160 (the no-break space) as whitespace;
  \<open>\\d\<close> is \<open>0\<close>..\<open>9\<close>. Under \<open>re.IGNORECASE\<close> a literal of ASCII letters matches a
  character exactly when their lower-case forms are equal.
\<close>

definition lower_char :: "char \<Rightarrow> char" where
  "lower_char c =
     (let n = (of_char c :: nat) in
      if (65 \<le> n \<and> n \<le> 90) \<or> (192 \<le> n \<and> n \<le> 222 \<and> n \<noteq> 215) then char_of (n + 32) else c)"

definition lower :: "string \<Rightarrow> string" where
  "lower s = map lower_char s"

definition is_space :: "char \<Rightarrow> bool" where
  "is_space c =
     (let n = (of_char c :: nat) in
      (9 \<le> n \<and> n \<le> 13) \<or> (28 \<le> n \<and> n \<le> 32) \<or> n = 133 \<or> n = 160)"

definition is_digit :: "char \<Rightarrow> bool" where
  "is_digit c = (let n = (of_char c :: nat) in 48 \<le> n \<and> n \<le> 57)"

definition newline :: char where
  "newline = CHR 0x0A"

text \<open>\<open>s.strip()\<close>\<close>

definition strip :: "string \<Rightarrow> string" where
  "strip s = rev (dropWhile is_space (rev (dropWhile is_space s)))"

text \<open>\<open>s.split()\<close>: the maximal runs of non-whitespace, in order. The first argument is the
  word being read, reversed.\<close>

fun split_acc :: "string \<Rightarrow> string \<Rightarrow> string list" where
  "split_acc w [] = (if w = [] then [] else [rev w])"
| "split_acc w (c # cs) =
     (if is_space c then (if w = [] then split_acc [] cs else rev w # split_acc [] cs)
      else split_acc (c # w) cs)"

definition split_ws :: "string \<Rightarrow> string list" where
  "split_ws s = split_acc [] s"

text \<open>\<open>sep.join(xs)\<close>\<close>

fun join :: "string \<Rightarrow> string list \<Rightarrow> string" where
  "join sep [] = []"
| "join sep [x] = x"
| "join sep (x # y # ys) = x @ sep @ join sep (y # ys)"

text \<open>\<open>s.startswith(p)\<close>, and its case-insensitive form returning the rest of the input (a
  literal of a regular expression compiled with \<open>re.IGNORECASE\<close>, matched at the current
  position).\<close>

fun starts_with :: "string \<Rightarrow> string \<Rightarrow> bool" where
  "starts_with [] s = True"
| "starts_with (p # ps) [] = False"
| "starts_with (p # ps) (c # cs) = (c = p \<and> starts_with ps cs)"

fun lit_ci :: "string \<Rightarrow> string \<Rightarrow> string option" where
  "lit_ci [] s = Some s"
| "lit_ci (p # ps) [] = None"
| "lit_ci (p # ps) (c # cs) = (if lower_char c = lower_char p then lit_ci ps cs else None)"

text \<open>\<open>sub in s\<close>, and \<open>re.search(sub, s, re.IGNORECASE)\<close> for a literal \<open>sub\<close>.\<close>

fun contains :: "string \<Rightarrow> string \<Rightarrow> bool" where
  "contains sub [] = (sub = [])"
| "contains sub (c # cs) = (starts_with sub (c # cs) \<or> contains sub cs)"

fun contains_ci :: "string \<Rightarrow> string \<Rightarrow> bool" where
  "contains_ci sub [] = (sub = [])"
| "contains_ci sub (c # cs) = (lit_ci sub (c # cs) \<noteq> None \<or> contains_ci sub cs)"

text \<open>\<open>s.replace(old, '')\<close> for a non-empty \<open>old\<close>: the occurrences of \<open>old\<close> are removed from
  left to right, without overlap. The counter is the number of characters of the current
  occurrence still to be skipped.\<close>

fun remove_all_aux :: "string \<Rightarrow> nat \<Rightarrow> string \<Rightarrow> string" where
  "remove_all_aux old k [] = []"
| "remove_all_aux old (Suc k) (c # cs) = remove_all_aux old k cs"
| "remove_all_aux old 0 (c # cs) =
     (if starts_with old (c # cs) then remove_all_aux old (length old - 1) cs
      else c # remove_all_aux old 0 cs)"

definition remove_all :: "string \<Rightarrow> string \<Rightarrow> string" where
  "remove_all old s = remove_all_aux old 0 s"

text \<open>\<open>s.split('?')[0]\<close>\<close>

definition strip_query :: "string \<Rightarrow> string" where
  "strip_query s = takeWhile (\<lambda>c. c \<noteq> CHR ''?'') s"

section \<open>The regular expressions of the scraper\<close>

text \<open>
  Every pattern of \<open>scraper.py\<close> that is used with \<open>re.sub\<close> has the shape \<open>A.*$\<close> or \<open>^A.*$\<close>
  (the title pattern: \<open>^A.*\<close>), where \<open>A\<close> is built from literals, \<open>\\s+\<close>, \<open>\\d+\<close>, \<open>\\d{5,}\<close>
  and one alternative of two literals. A match of such an \<open>A\<close> at a position is read as a
  function from the input at that position to the input left after the match; no
  backtracking into \<open>A\<close> can change the outcome, since each greedy run (\<open>\\s+\<close>, \<open>\\d+\<close>) is
  followed by a character outside its class or by \<open>.*\<close>, which takes what the run gives up.
\<close>

text \<open>\<open>\\s+\<close> and \<open>\\d+\<close>, greedy.\<close>

definition spaces1 :: "string \<Rightarrow> string option" where
  "spaces1 s = (if takeWhile is_space s = [] then None else Some (dropWhile is_space s))"

definition digits1 :: "string \<Rightarrow> string option" where
  "digits1 s = (if takeWhile is_digit s = [] then None else Some (dropWhile is_digit s))"

text \<open>\<open>\\d{5,}\<close>, greedy.\<close>

definition digits5 :: "string \<Rightarrow> string option" where
  "digits5 s = (if length (takeWhile is_digit s) < 5 then None else Some (dropWhile is_digit s))"

text \<open>\<open>(Offered|Wanted)\\s+at\<close>\<close>

definition offered_or_wanted_at :: "string \<Rightarrow> string option" where
  "offered_or_wanted_at s =
     (case (case lit_ci ''Offered'' s of Some r \<Rightarrow> Some r | None \<Rightarrow> lit_ci ''Wanted'' s) of
        None \<Rightarrow> None
      | Some r \<Rightarrow> (case spaces1 r of None \<Rightarrow> None | Some r' \<Rightarrow> lit_ci ''at'' r'))"

text \<open>\<open>Serial\\s+Number\<close>\<close>

definition serial_number :: "string \<Rightarrow> string option" where
  "serial_number s =
     (case lit_ci ''Serial'' s of
        None \<Rightarrow> None
      | Some r \<Rightarrow> (case spaces1 r of None \<Rightarrow> None | Some r' \<Rightarrow> lit_ci ''Number'' r'))"

text \<open>\<open>.*$\<close> (no \<open>re.DOTALL\<close>, no \<open>re.MULTILINE\<close>): \<open>.\<close> is any character but a newline, and
  \<open>$\<close> holds at the end of the string and just before a newline that ends it. The result is
  the input that the match leaves: nothing, or that last newline.\<close>

definition dot_star_eol :: "string \<Rightarrow> string option" where
  "dot_star_eol s =
     (let r = dropWhile (\<lambda>c. c \<noteq> newline) s
      in if r = [] \<or> r = [newline] then Some r else None)"

text \<open>\<open>re.sub(r'A.*$', '', s)\<close>: the leftmost position where \<open>A.*$\<close> matches; the text before
  it is kept, the match is deleted, and what follows it (nothing or a final newline) cannot
  match again.\<close>

fun re_sub_to_eol :: "(string \<Rightarrow> string option) \<Rightarrow> string \<Rightarrow> string" where
  "re_sub_to_eol A [] = []"
| "re_sub_to_eol A (c # cs) =
     (case Option.bind (A (c # cs)) dot_star_eol of
        Some r \<Rightarrow> r
      | None \<Rightarrow> c # re_sub_to_eol A cs)"

text \<open>\<open>re.sub(r'^A.*$', '', s)\<close>: the only position tried is the start of the string.\<close>

definition re_sub_anchored_to_eol :: "(string \<Rightarrow> string option) \<Rightarrow> string \<Rightarrow> string" where
  "re_sub_anchored_to_eol A s =
     (case Option.bind (A s) dot_star_eol of Some r \<Rightarrow> r | None \<Rightarrow> s)"

text \<open>\<open>re.sub(r'\\s+', ' ', s)\<close>: each maximal run of whitespace becomes one space. The flag
  says whether the previous character was whitespace.\<close>

fun collapse_ws_aux :: "bool \<Rightarrow> string \<Rightarrow> string" where
  "collapse_ws_aux in_run [] = []"
| "collapse_ws_aux in_run (c # cs) =
     (if is_space c then (if in_run then collapse_ws_aux True cs else CHR '' '' # collapse_ws_aux True cs)
      else c # collapse_ws_aux False cs)"

definition collapse_ws :: "string \<Rightarrow> string" where
  "collapse_ws s = collapse_ws_aux False s"

section \<open>Value cleanup of \<open>extract_table_value\<close>\<close>

text \<open>Lines 65 to 72 of \<open>scraper.py\<close>: the six substitutions in their order, then
  \<open>' '.join(value.split())\<close> and \<open>strip()\<close>.\<close>

definition clean_value :: "string \<Rightarrow> string" where
  "clean_value value0 =
     (let value1 = re_sub_anchored_to_eol offered_or_wanted_at value0;
          value2 = re_sub_to_eol serial_number value1;
          value3 = re_sub_to_eol (lit_ci ''Model'') value2;
          value4 = re_sub_to_eol (lit_ci ''Manufacture'') value3;
          value5 = re_sub_to_eol (lit_ci ''Manufacturer'') value4;
          value6 = re_sub_to_eol digits5 value5;
          value7 = join '' '' (split_ws value6)
      in strip value7)"

section \<open>Documents\<close>

text \<open>
  A parsed document (a \<open>BeautifulSoup\<close> object) is read by the scraper only through the
  queries below, so a document is the record of their answers, each in document order.
  An element is its stripped text (\<open>get_text(strip=True)\<close>, what \<open>extract_text\<close> returns
  for an element) and the two attributes the scraper reads. A table cell carries the
  answers of the three \<open>find\<close> queries made inside it.
\<close>

record element =
  el_text :: string
  el_src :: "string option"
  el_href :: "string option"

record cell =
  cell_elem :: element
  find_txtb :: "element option"
  find_txt :: "element option"
  find_td :: "element option"

record soup =
  select_h1_span :: "element option"
  find_title :: "element option"
  find_all_bold :: "element list"
  select_h2_span :: "element option"
  find_all_p :: "element list"
  select_imgprev :: "element option"
  select_addlImage :: "element list"
  find_all_img :: "element list"
  find_all_tr :: "cell list list"
  select_menubar :: "element list"
  select_item_links :: "element list"

text \<open>
  \<^item> \<open>select_h1_span\<close>: \<open>soup.select_one('h1.HL1 span.HL1')\<close>;
  \<^item> \<open>find_title\<close>: \<open>soup.find('title')\<close>;
  \<^item> \<open>find_all_bold\<close>: \<open>soup.find_all(['b', 'strong'])\<close>;
  \<^item> \<open>select_h2_span\<close>: \<open>soup.select_one('h2.HL span.HL')\<close>;
  \<^item> \<open>find_all_p\<close>: \<open>soup.find_all('p')\<close>;
  \<^item> \<open>select_imgprev\<close>: \<open>soup.select_one('img.imgprev')\<close>;
  \<^item> \<open>select_addlImage\<close>: \<open>soup.select('a.addlImage')\<close>;
  \<^item> \<open>find_all_img\<close>: \<open>soup.find_all('img')\<close> (the \<open>src\<close> filter is applied by the model);
  \<^item> \<open>find_all_tr\<close>: \<open>soup.find_all('tr')\<close>, each row as \<open>row.find_all(['td', 'th'])\<close>;
  \<^item> \<open>select_menubar\<close>: \<open>soup.select('a.menubar')\<close>;
  \<^item> \<open>select_item_links\<close>: \<open>soup.select('td.itemid a.collink0')\<close>.

  \<open>get_soup\<close> answers \<open>None\<close> on any fetch failure and a document otherwise; it is a
  parameter of the model, a function from the URL requested.
\<close>

definition BASE_URL :: string where
  "BASE_URL = ''https://surplus.infineon.com/''"

section \<open>Pagination discovery\<close>

text \<open>\<open>str(n)\<close> for a natural number, as the f-string of the index URL prints it.\<close>

definition digit_char :: "nat \<Rightarrow> char" where
  "digit_char d = char_of (48 + d)"

function show_nat :: "nat \<Rightarrow> string" where
  "show_nat n = (if n < 10 then [digit_char n] else show_nat (n div 10) @ [digit_char (n mod 10)])"
  by pat_completeness auto
termination
  by (relation "measure (\<lambda>n. n)") auto

definition all_items_url :: "string \<Rightarrow> nat \<Rightarrow> string" where
  "all_items_url menuid start_rec =
     BASE_URL @ ''mAllitems.cfm?menuid='' @ menuid @ ''&subject=1&startRec='' @ show_nat start_rec"

definition items_per_page :: nat where
  "items_per_page = 100"

text \<open>\<open>re.search(r'ItemNo=(\\d+)', href)\<close> and its group 1: the leftmost position where
  \<open>ItemNo=\<close> is followed by a digit, and the digits that follow.\<close>

fun lit :: "string \<Rightarrow> string \<Rightarrow> string option" where
  "lit [] s = Some s"
| "lit (p # ps) [] = None"
| "lit (p # ps) (c # cs) = (if c = p then lit ps cs else None)"

definition item_no_at :: "string \<Rightarrow> string option" where
  "item_no_at s =
     (case lit ''ItemNo='' s of
        None \<Rightarrow> None
      | Some r \<Rightarrow> (if takeWhile is_digit r = [] then None else Some (takeWhile is_digit r)))"

fun search_item_no :: "string \<Rightarrow> string option" where
  "search_item_no [] = None"
| "search_item_no (c # cs) =
     (case item_no_at (c # cs) of Some item_no \<Rightarrow> Some item_no | None \<Rightarrow> search_item_no cs)"

text \<open>\<open>link.get('href', '')\<close>\<close>

definition get_href :: "element \<Rightarrow> string" where
  "get_href link = (case el_href link of None \<Rightarrow> [] | Some h \<Rightarrow> h)"

text \<open>Lines 252 to 259: the loop over the links of one page.\<close>

fun collect_item_numbers :: "element list \<Rightarrow> string list \<Rightarrow> string list" where
  "collect_item_numbers [] item_numbers = item_numbers"
| "collect_item_numbers (link # links) item_numbers =
     (case search_item_no (get_href link) of
        None \<Rightarrow> collect_item_numbers links item_numbers
      | Some item_no \<Rightarrow>
          (if item_no \<in> set item_numbers then collect_item_numbers links item_numbers
           else collect_item_numbers links (item_numbers @ [item_no])))"

text \<open>\<open>xs[:n]\<close> for a Python integer \<open>n\<close>: a negative \<open>n\<close> counts from the end.\<close>

definition py_prefix :: "int \<Rightarrow> 'a list \<Rightarrow> 'a list" where
  "py_prefix n xs = (if 0 \<le> n then take (nat n) xs else take (length xs - nat (- n)) xs)"

text \<open>Lines 268 to 270: \<open>if max_items and len(item_numbers) >= max_items\<close>; the answer is
  the truncated list when the test holds. \<open>None\<close> and \<open>0\<close> are both falsy.\<close>

definition max_items_stop :: "int option \<Rightarrow> string list \<Rightarrow> string list option" where
  "max_items_stop max_items item_numbers =
     (case max_items of
        None \<Rightarrow> None
      | Some m \<Rightarrow>
          (if m \<noteq> 0 \<and> m \<le> int (length item_numbers) then Some (py_prefix m item_numbers)
           else None))"

text \<open>One round of the \<open>while True\<close> loop, from the answer of \<open>get_soup\<close> on: either a
  \<open>break\<close> with the list to return, or the offset and the list of the next round.\<close>

datatype step = Break "string list" | Continue nat "string list"

definition discover_page :: "soup option \<Rightarrow> int option \<Rightarrow> nat \<Rightarrow> string list \<Rightarrow> step" where
  "discover_page page max_items start_rec item_numbers =
     (case page of
        None \<Rightarrow> Break item_numbers
      | Some doc \<Rightarrow>
          (let item_links = select_item_links doc in
           if item_links = [] then Break item_numbers
           else
             (let item_numbers' = collect_item_numbers item_links item_numbers in
              if length item_links < items_per_page then Break item_numbers'
              else
                (case max_items_stop max_items item_numbers' of
                   Some truncated \<Rightarrow> Break truncated
                 | None \<Rightarrow> Continue (start_rec + items_per_page) item_numbers'))))"

text \<open>The loop. It ends only when a page breaks it; on a site that answers every offset
  with a full page it runs forever, which is the value \<open>None\<close>.\<close>

partial_function (option) discover_loop ::
  "(string \<Rightarrow> soup option) \<Rightarrow> int option \<Rightarrow> string \<Rightarrow> nat \<Rightarrow> string list \<Rightarrow> string list option"
where
  "discover_loop get_soup max_items menuid start_rec item_numbers =
     (case discover_page (get_soup (all_items_url menuid start_rec)) max_items start_rec item_numbers of
        Break result \<Rightarrow> Some result
      | Continue start_rec' item_numbers' \<Rightarrow>
          discover_loop get_soup max_items menuid start_rec' item_numbers')"

text \<open>\<open>menuid = category_menuid if category_menuid else 'm'\<close>: \<open>None\<close> and the empty string
  both select all items.\<close>

definition menuid_of :: "string option \<Rightarrow> string" where
  "menuid_of category_menuid =
     (case category_menuid of None \<Rightarrow> ''m'' | Some c \<Rightarrow> (if c = [] then ''m'' else c))"

definition discover_listings ::
  "(string \<Rightarrow> soup option) \<Rightarrow> int option \<Rightarrow> string option \<Rightarrow> string list option" where
  "discover_listings get_soup max_items category_menuid =
     discover_loop get_soup max_items (menuid_of category_menuid) 1 []"

text \<open>The identifiers that the links of a page carry, in document order, and a list with
  only the first occurrence of each element kept: the words in which the order of the
  discovered identifiers is stated.\<close>

definition item_numbers_of :: "element list \<Rightarrow> string list" where
  "item_numbers_of links = List.map_filter (\<lambda>link. search_item_no (get_href link)) links"

definition first_seen :: "'a list \<Rightarrow> 'a list" where
  "first_seen xs = rev (remdups (rev xs))"

text \<open>A page that ends the loop whatever has been collected: no document, or fewer links
  than the batch size.\<close>

definition ends_discovery :: "soup option \<Rightarrow> bool" where
  "ends_discovery page =
     (case page of None \<Rightarrow> True | Some doc \<Rightarrow> length (select_item_links doc) < items_per_page)"

section \<open>Sample documents and sites\<close>

definition empty_soup :: soup where
  "empty_soup = \<lparr>select_h1_span = None, find_title = None, find_all_bold = [],
     select_h2_span = None, find_all_p = [], select_imgprev = None, select_addlImage = [],
     find_all_img = [], find_all_tr = [], select_menubar = [], select_item_links = []\<rparr>"

text \<open>\<open><td class="itemid"><a class="collink0" href="iinfo.cfm?ItemNo=N">N</a></td>\<close>\<close>

definition item_link :: "string \<Rightarrow> element" where
  "item_link item_no =
     \<lparr>el_text = item_no, el_src = None, el_href = Some (''iinfo.cfm?ItemNo='' @ item_no)\<rparr>"

definition index_page :: "element list \<Rightarrow> soup" where
  "index_page links = empty_soup\<lparr>select_item_links := links\<rparr>"

text \<open>A site with one index page (offset 1), and one with two (offsets 1 and 101); every
  other request fails.\<close>

definition one_page_site :: "element list \<Rightarrow> string \<Rightarrow> soup option" where
  "one_page_site links url =
     (if url = all_items_url ''m'' 1 then Some (index_page links) else None)"

definition two_page_site :: "element list \<Rightarrow> element list \<Rightarrow> string \<Rightarrow> soup option" where
  "two_page_site links1 links2 url =
     (if url = all_items_url ''m'' 1 then Some (index_page links1)
      else if url = all_items_url ''m'' 101 then Some (index_page links2)
      else None)"

section \<open>Listing extraction\<close>

text \<open>\<open>extract_text(element, default="")\<close>: the stripped text of an element, the default for
  no element.\<close>

definition extract_text :: "element option \<Rightarrow> string" where
  "extract_text element = (case element of None \<Rightarrow> [] | Some e \<Rightarrow> el_text e)"

text \<open>\<open>extract_table_value(soup, label)\<close>: the first row with at least two cells whose first
  cell's text, lower-cased, is or contains the lower-cased label and whose value is not
  empty; its value, cleaned. The empty string when no row qualifies.\<close>

fun extract_table_value_rows :: "cell list list \<Rightarrow> string \<Rightarrow> string" where
  "extract_table_value_rows [] label = []"
| "extract_table_value_rows (cells # rows) label =
     (case cells of
        c0 # c1 # _ \<Rightarrow>
          (let label_text = lower (extract_text (Some (cell_elem c0))) in
           if label_text = lower label \<or> contains (lower label) label_text then
             (let value_elem = (case find_txt c1 of Some e \<Rightarrow> Some e | None \<Rightarrow> find_td c1);
                  value = (case value_elem of
                             Some e \<Rightarrow> extract_text (Some e)
                           | None \<Rightarrow> extract_text (Some (cell_elem c1)))
              in if value \<noteq> [] then clean_value value else extract_table_value_rows rows label)
           else extract_table_value_rows rows label)
      | _ \<Rightarrow> extract_table_value_rows rows label)"

definition extract_table_value :: "soup \<Rightarrow> string \<Rightarrow> string" where
  "extract_table_value soup label = extract_table_value_rows (find_all_tr soup) label"

text \<open>The record that \<open>scrape_listing\<close> fills: a dictionary with thirteen fixed keys. The
  type of \<open>pictures\<close> is a parameter, since \<open>run_scraping_job\<close> replaces the list by one
  string.\<close>

record 'p listing_data =
  title :: string
  condition :: string
  location :: string
  category :: string
  listing_type :: string
  price :: string
  pictures :: 'p
  manufacturer :: string
  model :: string
  year_of_manufacturer :: string
  description :: string
  url :: string
  item_id :: string

definition listing_url :: "string \<Rightarrow> string" where
  "listing_url item_no = BASE_URL @ ''iinfo.cfm?ItemNo='' @ item_no"

subsection \<open>Title\<close>

text \<open>\<open>\\d+\\s+(Offered|Wanted)\\s+at\<close>, and
  \<open>re.sub(r'^\\d+\\s+(Offered|Wanted)\\s+at.*', '', s, flags=re.IGNORECASE)\<close>: a match can only
  start the string, and \<open>.*\<close> ends it at the first newline, which stays.\<close>

definition quantity_offered_at :: "string \<Rightarrow> string option" where
  "quantity_offered_at s =
     (case digits1 s of
        None \<Rightarrow> None
      | Some r \<Rightarrow> (case spaces1 r of None \<Rightarrow> None | Some r' \<Rightarrow> offered_or_wanted_at r'))"

definition re_sub_title :: "string \<Rightarrow> string" where
  "re_sub_title s =
     (case quantity_offered_at s of None \<Rightarrow> s | Some r \<Rightarrow> dropWhile (\<lambda>c. c \<noteq> newline) r)"

text \<open>Option 1 (lines 100 to 105), option 2 (lines 108 to 114) and the loop of option 3
  (lines 118 to 122), each giving the empty string when it sets no title.\<close>

definition title_from_heading :: "soup \<Rightarrow> string" where
  "title_from_heading soup =
     (case select_h1_span soup of
        None \<Rightarrow> []
      | Some title_elem \<Rightarrow> strip (re_sub_title (extract_text (Some title_elem))))"

definition title_from_title_tag :: "soup \<Rightarrow> string" where
  "title_from_title_tag soup =
     (case find_title soup of
        None \<Rightarrow> []
      | Some title_tag \<Rightarrow>
          strip (remove_all ''Infineon Technologies AG - Equipment Trade''
                   (extract_text (Some title_tag))))"

fun title_from_bold :: "element list \<Rightarrow> string" where
  "title_from_bold [] = []"
| "title_from_bold (bold # rest) =
     (let text = extract_text (Some bold) in
      if text \<noteq> [] \<and> length text > 10 \<and> \<not> contains ''offered'' (lower text)
         \<and> \<not> contains ''wanted'' (lower text)
      then text
      else title_from_bold rest)"

definition extract_title :: "soup \<Rightarrow> string" where
  "extract_title soup =
     (let title1 = title_from_heading soup;
          title2 = (if title1 = [] then title_from_title_tag soup else title1)
      in if title2 = [] then title_from_bold (find_all_bold soup) else title2)"

subsection \<open>Listing type, description, category\<close>

definition extract_listing_type :: "soup \<Rightarrow> string" where
  "extract_listing_type soup =
     (case select_h2_span soup of
        None \<Rightarrow> []
      | Some type_elem \<Rightarrow>
          (let type_text = lower (extract_text (Some type_elem)) in
           if contains ''offered'' type_text then ''For Sale''
           else if contains ''wanted'' type_text then ''Wanted''
           else []))"

fun extract_description :: "element list \<Rightarrow> string" where
  "extract_description [] = []"
| "extract_description (p # rest) =
     (let text = extract_text (Some p) in
      if text \<noteq> [] \<and> length text > 20 \<and> \<not> contains ''copyright'' (lower text) then text
      else extract_description rest)"

definition extract_category :: "soup \<Rightarrow> string" where
  "extract_category soup =
     (let categories = filter (\<lambda>c. c \<noteq> []) (map (\<lambda>a. extract_text (Some a)) (select_menubar soup));
          categories' = filter (\<lambda>c. c \<notin> set [''View'', ''Search-by-Specs'']) categories
      in if categories' = [] then [] else join '' > '' categories')"

subsection \<open>Pictures\<close>

text \<open>The state of lines 143 to 174 is the list \<open>listing_data['pictures']\<close> and the set
  \<open>seen_urls\<close>. \<open>urljoin\<close> is the function of \<open>urllib.parse\<close>, a parameter of the model.\<close>

text \<open>Method 1: the image \<open>img.imgprev\<close>.\<close>

definition add_main_image ::
  "(string \<Rightarrow> string \<Rightarrow> string) \<Rightarrow> element option \<Rightarrow> string list \<times> string set
     \<Rightarrow> string list \<times> string set" where
  "add_main_image urljoin main_img st =
     (case main_img of
        None \<Rightarrow> st
      | Some img \<Rightarrow>
          (case el_src img of
             None \<Rightarrow> st
           | Some src \<Rightarrow>
               (if src \<noteq> [] then
                  (let src' = strip_query src;
                       full_url = urljoin BASE_URL src'
                   in (fst st @ [full_url], insert src' (snd st)))
                else st)))"

text \<open>Method 2: the links \<open>a.addlImage\<close>. The membership test reads \<open>href\<close> as the attribute
  gives it; the query string is cut afterwards, and the cut string is the one recorded.\<close>

fun add_addl_images ::
  "(string \<Rightarrow> string \<Rightarrow> string) \<Rightarrow> element list \<Rightarrow> string list \<times> string set
     \<Rightarrow> string list \<times> string set" where
  "add_addl_images urljoin [] st = st"
| "add_addl_images urljoin (link # links) st =
     (case el_href link of
        None \<Rightarrow> add_addl_images urljoin links st
      | Some href \<Rightarrow>
          (if href \<noteq> [] \<and> href \<notin> snd st then
             (let href' = strip_query href;
                  full_url = urljoin BASE_URL href'
              in add_addl_images urljoin links (fst st @ [full_url], insert href' (snd st)))
           else add_addl_images urljoin links st))"

text \<open>Method 3: \<open>soup.find_all('img', src=re.compile(r'clientresources', re.IGNORECASE))\<close>,
  the images whose \<open>src\<close> attribute exists and contains the marker, then the loop over them
  with \<open>re.search(r'\\.(jpg|jpeg|png|gif|bmp|webp)', src, re.IGNORECASE)\<close>.\<close>

definition clientresources_imgs :: "soup \<Rightarrow> element list" where
  "clientresources_imgs soup =
     filter (\<lambda>img. case el_src img of None \<Rightarrow> False | Some src \<Rightarrow> contains_ci ''clientresources'' src)
       (find_all_img soup)"

definition has_image_extension :: "string \<Rightarrow> bool" where
  "has_image_extension src =
     (contains_ci ''.jpg'' src \<or> contains_ci ''.jpeg'' src \<or> contains_ci ''.png'' src \<or>
      contains_ci ''.gif'' src \<or> contains_ci ''.bmp'' src \<or> contains_ci ''.webp'' src)"

fun add_fallback_images ::
  "(string \<Rightarrow> string \<Rightarrow> string) \<Rightarrow> element list \<Rightarrow> string list \<times> string set
     \<Rightarrow> string list \<times> string set" where
  "add_fallback_images urljoin [] st = st"
| "add_fallback_images urljoin (img # imgs) st =
     (case el_src img of
        None \<Rightarrow> add_fallback_images urljoin imgs st
      | Some src \<Rightarrow>
          (if src \<noteq> [] \<and> src \<notin> snd st then
             (let src' = strip_query src in
              if has_image_extension src' then
                (let full_url = urljoin BASE_URL src'
                 in add_fallback_images urljoin imgs (fst st @ [full_url], insert src' (snd st)))
              else add_fallback_images urljoin imgs st)
           else add_fallback_images urljoin imgs st))"

definition extract_pictures :: "(string \<Rightarrow> string \<Rightarrow> string) \<Rightarrow> soup \<Rightarrow> string list" where
  "extract_pictures urljoin soup =
     fst (add_fallback_images urljoin (clientresources_imgs soup)
            (add_addl_images urljoin (select_addlImage soup)
               (add_main_image urljoin (select_imgprev soup) ([], {}))))"

subsection \<open>Table data\<close>

text \<open>Lines 178 to 192: the dictionary \<open>all_data\<close>, filled row by row.\<close>

definition label_text_of :: "cell \<Rightarrow> string" where
  "label_text_of c =
     lower (strip (extract_text (Some (case find_txtb c of Some e \<Rightarrow> e | None \<Rightarrow> cell_elem c))))"

definition value_text_of :: "cell \<Rightarrow> string" where
  "value_text_of c =
     strip (extract_text (Some (case find_txt c of Some e \<Rightarrow> e | None \<Rightarrow> cell_elem c)))"

fun collect_table :: "cell list list \<Rightarrow> (string \<rightharpoonup> string) \<Rightarrow> (string \<rightharpoonup> string)" where
  "collect_table [] all_data = all_data"
| "collect_table (cells # rows) all_data =
     (case cells of
        c0 # c1 # _ \<Rightarrow>
          (let label_text = label_text_of c0;
               value_text = value_text_of c1
           in if label_text \<noteq> [] \<and> value_text \<noteq> []
              then collect_table rows (all_data(label_text \<mapsto> value_text))
              else collect_table rows all_data)
      | _ \<Rightarrow> collect_table rows all_data)"

text \<open>\<open>d.get(key, default)\<close>\<close>

definition dict_get :: "('k \<rightharpoonup> 'v) \<Rightarrow> 'k \<Rightarrow> 'v \<Rightarrow> 'v" where
  "dict_get d key dflt = (case d key of None \<Rightarrow> dflt | Some v \<Rightarrow> v)"

subsection \<open>\<open>scrape_listing\<close>\<close>

text \<open>The body of \<open>scrape_listing\<close> after the fetch, and \<open>scrape_listing\<close>: \<open>None\<close> when the
  fetch fails.\<close>

definition extract_listing ::
  "(string \<Rightarrow> string \<Rightarrow> string) \<Rightarrow> string \<Rightarrow> soup \<Rightarrow> (string list) listing_data" where
  "extract_listing urljoin item_no soup =
     (let all_data = collect_table (find_all_tr soup) Map.empty in
      \<lparr>title = strip (collapse_ws (extract_title soup)),
       condition = dict_get all_data ''condition'' [],
       location = ''Regensburg, Germany'',
       category = extract_category soup,
       listing_type = extract_listing_type soup,
       price = dict_get all_data ''unit price'' [],
       pictures = extract_pictures urljoin soup,
       manufacturer = dict_get all_data ''manufacturer'' [],
       model = dict_get all_data ''model'' [],
       year_of_manufacturer = dict_get all_data ''year of manufacture'' [],
       description = strip (collapse_ws (extract_description (find_all_p soup))),
       url = listing_url item_no,
       item_id = item_no\<rparr>)"

definition scrape_listing ::
  "(string \<Rightarrow> string \<Rightarrow> string) \<Rightarrow> (string \<Rightarrow> soup option) \<Rightarrow> string
     \<Rightarrow> (string list) listing_data option" where
  "scrape_listing urljoin get_soup item_no =
     (case get_soup (listing_url item_no) of
        None \<Rightarrow> None
      | Some soup \<Rightarrow> Some (extract_listing urljoin item_no soup))"

text \<open>The pairs that the table pass records, row by row, stated on the cells themselves: the
  label is the text of the element of class \<open>txtb\<close> inside the first cell, or of the first
  cell when it has none, stripped and lower-cased; the value is the text of the element of
  class \<open>txt\<close> inside the second cell, or of the second cell when it has none, stripped. A
  row gives a pair when it has two cells or more and both texts are non-empty. Then the
  value of the last pair with a given label.\<close>

definition row_pair :: "cell list \<Rightarrow> (string \<times> string) option" where
  "row_pair cells =
     (case cells of
        c0 # c1 # _ \<Rightarrow>
          (let label = lower (strip (case find_txtb c0 of
                                       Some e \<Rightarrow> el_text e
                                     | None \<Rightarrow> el_text (cell_elem c0)));
               val = strip (case find_txt c1 of
                              Some e \<Rightarrow> el_text e
                            | None \<Rightarrow> el_text (cell_elem c1))
           in if label \<noteq> [] \<and> val \<noteq> [] then Some (label, val) else None)
      | _ \<Rightarrow> None)"

definition table_pairs :: "cell list list \<Rightarrow> (string \<times> string) list" where
  "table_pairs rows = List.map_filter row_pair rows"

definition last_value :: "string \<Rightarrow> (string \<times> string) list \<Rightarrow> string" where
  "last_value label pairs =
     (case filter (\<lambda>p. fst p = label) pairs of [] \<Rightarrow> [] | q # qs \<Rightarrow> snd (last (q # qs)))"

text \<open>The same pairs read off the texts of the two cells alone, whatever is nested in them:
  the lower-cased text of the first cell and the text of the second cell.\<close>

definition cell_text_pair :: "cell list \<Rightarrow> (string \<times> string) option" where
  "cell_text_pair cells =
     (case cells of
        c0 # c1 # _ \<Rightarrow>
          (let label = lower (strip (el_text (cell_elem c0)));
               val = strip (el_text (cell_elem c1))
           in if label \<noteq> [] \<and> val \<noteq> [] then Some (label, val) else None)
      | _ \<Rightarrow> None)"

definition cell_text_pairs :: "cell list list \<Rightarrow> (string \<times> string) list" where
  "cell_text_pairs rows = List.map_filter cell_text_pair rows"




text \<open>Detail pages. \<open>preview_only_page\<close> is a page whose only image is
  \<open><img class="imgprev" src="clientresources/item255419.jpg?v=1">\<close>: the answer of
  \<open>select_one('img.imgprev')\<close> and the one element of \<open>find_all('img')\<close>. \<open>table_page\<close> has
  four table rows of plain cells. \<open>nested_page\<close> has two rows whose cells nest elements of
  class \<open>txtb\<close> and \<open>txt\<close>:
  \<open><tr><td><span class="txtb">Unit Price</span>(EUR)</td><td>500</td></tr>\<close> and
  \<open><tr><td>Manufacturer</td><td><span class="txt"></span>Siemens</td></tr>\<close>.
  \<open>unqualified_page\<close> has every element that the heuristics look at, none of which
  qualifies.\<close>

definition preview_img :: element where
  "preview_img =
     \<lparr>el_text = [], el_src = Some ''clientresources/item255419.jpg?v=1'', el_href = None\<rparr>"

definition preview_only_page :: soup where
  "preview_only_page = empty_soup\<lparr>select_imgprev := Some preview_img, find_all_img := [preview_img]\<rparr>"

definition text_cell :: "string \<Rightarrow> cell" where
  "text_cell s =
     \<lparr>cell_elem = \<lparr>el_text = s, el_src = None, el_href = None\<rparr>,
      find_txtb = None, find_txt = None, find_td = None\<rparr>"

definition table_page :: soup where
  "table_page = empty_soup\<lparr>find_all_tr :=
     [[text_cell ''Model'', text_cell ''A 100''],
      [text_cell ''Manufacturer'', text_cell []],
      [text_cell ''Model'', text_cell ''B 200''],
      [text_cell ''Condition'']]\<rparr>"

definition text_elem :: "string \<Rightarrow> element" where
  "text_elem s = \<lparr>el_text = s, el_src = None, el_href = None\<rparr>"

definition nested_page :: soup where
  "nested_page = empty_soup\<lparr>find_all_tr :=
     [[\<lparr>cell_elem = text_elem ''Unit Price(EUR)'', find_txtb = Some (text_elem ''Unit Price''),
         find_txt = None, find_td = None\<rparr>,
       text_cell ''500''],
      [text_cell ''Manufacturer'',
       \<lparr>cell_elem = text_elem ''Siemens'', find_txtb = None,
         find_txt = Some (text_elem []), find_td = None\<rparr>]]\<rparr>"


definition detail_site :: "soup \<Rightarrow> string \<Rightarrow> soup option" where
  "detail_site doc request = (if request = listing_url ''255419'' then Some doc else None)"

text \<open>\<open>urljoin\<close> on a base that ends in \<open>/\<close> and a relative path with no scheme, no leading
  \<open>/\<close> and no dot segments.\<close>

definition simple_urljoin :: "string \<Rightarrow> string \<Rightarrow> string" where
  "simple_urljoin base ref = base @ ref"

section \<open>Scraping all listings\<close>

text \<open>
  An exception that leaves a call, as \<open>run_scraping_job\<close> records it: \<open>str(e)\<close> and
  \<open>traceback.format_exc()\<close>. \<open>scrape_all_listings\<close> calls two methods of the scraper; what
  a call does is a parameter of the model: it returns (\<open>Inr\<close>), it raises (\<open>Inl\<close>), and the
  discovery may also never return (\<open>None\<close>). In the \<open>SurplusScraper\<close> of \<open>scraper.py\<close>
  neither method raises by itself, since \<open>get_soup\<close> catches the failures of a fetch; a
  failure of the infrastructure beneath them is what \<open>Inl\<close> stands for.
\<close>

datatype exn = Exn string string

record scraper =
  call_discover_listings :: "int option \<Rightarrow> string option \<Rightarrow> (exn + string list) option"
  call_scrape_listing :: "string \<Rightarrow> exn + (string list) listing_data option"

definition SurplusScraper ::
  "(string \<Rightarrow> string \<Rightarrow> string) \<Rightarrow> (string \<Rightarrow> soup option) \<Rightarrow> scraper" where
  "SurplusScraper urljoin get_soup =
     \<lparr>call_discover_listings =
        (\<lambda>max_items category_menuid.
           map_option Inr (discover_listings get_soup max_items category_menuid)),
      call_scrape_listing = (\<lambda>item_no. Inr (scrape_listing urljoin get_soup item_no))\<rparr>"

text \<open>The loop of lines 289 to 300 from index \<open>i\<close> on. The state \<open>'s\<close> is what the progress
  callback writes to. A listing that is \<open>None\<close> (a failed fetch) is skipped; an exception
  ends the loop with the state as the callbacks so far left it.\<close>

fun scrape_each ::
  "(string \<Rightarrow> exn + 'l option) \<Rightarrow> (int \<Rightarrow> int \<Rightarrow> string \<Rightarrow> 's \<Rightarrow> 's) option \<Rightarrow> nat \<Rightarrow> nat
     \<Rightarrow> string list \<Rightarrow> 'l list \<Rightarrow> 's \<Rightarrow> (exn + 'l list) \<times> 's" where
  "scrape_each scrape progress_callback total_items i [] all_data st = (Inr all_data, st)"
| "scrape_each scrape progress_callback total_items i (item_no # rest) all_data st =
     (let st' = (case progress_callback of
                   None \<Rightarrow> st
                 | Some callback \<Rightarrow> callback (int (i + 1)) (int total_items) (''Item '' @ item_no) st)
      in case scrape item_no of
           Inl e \<Rightarrow> (Inl e, st')
         | Inr None \<Rightarrow> scrape_each scrape progress_callback total_items (i + 1) rest all_data st'
         | Inr (Some listing) \<Rightarrow>
             scrape_each scrape progress_callback total_items (i + 1) rest (all_data @ [listing]) st')"

definition scrape_all_listings ::
  "scraper \<Rightarrow> int option \<Rightarrow> (int \<Rightarrow> int \<Rightarrow> string \<Rightarrow> 's \<Rightarrow> 's) option \<Rightarrow> string option \<Rightarrow> 's
     \<Rightarrow> ((exn + (string list) listing_data list) \<times> 's) option" where
  "scrape_all_listings scraper max_items progress_callback category_menuid st =
     (case call_discover_listings scraper max_items category_menuid of
        None \<Rightarrow> None
      | Some (Inl e) \<Rightarrow> Some (Inl e, st)
      | Some (Inr item_numbers) \<Rightarrow>
          Some (scrape_each (call_scrape_listing scraper) progress_callback
                  (length item_numbers) 0 item_numbers [] st))"

section \<open>Jobs\<close>

text \<open>The two module-level dictionaries of \<open>main.py\<close>. A status is a dictionary from keys to
  strings and integers; the stored listings have their pictures joined into one string.\<close>

datatype jvalue = JStr string | JInt int

record app =
  scraped_data_store :: "string \<rightharpoonup> string listing_data list"
  scraping_status :: "string \<rightharpoonup> (string \<rightharpoonup> jvalue)"

datatype http_exception = HTTPException nat string

datatype py_exception = KeyError string

text \<open>Lines 63 to 65.\<close>

definition flatten_pictures :: "(string list) listing_data \<Rightarrow> string listing_data" where
  "flatten_pictures item =
     \<lparr>title = title item, condition = condition item, location = location item,
      category = category item, listing_type = listing_type item, price = price item,
      pictures = (if pictures item \<noteq> [] then join ''; '' (pictures item) else []),
      manufacturer = manufacturer item, model = model item,
      year_of_manufacturer = year_of_manufacturer item, description = description item,
      url = url item, item_id = item_id item\<rparr>"

text \<open>\<open>start_scraping\<close> (lines 38 to 43); the job id is the clock reading, a parameter. The
  background task it schedules is \<open>run_scraping_job\<close>.\<close>

definition start_scraping :: "string \<Rightarrow> app \<Rightarrow> (string \<rightharpoonup> jvalue) \<times> app" where
  "start_scraping job_id st =
     ([''job_id'' \<mapsto> JStr job_id, ''status'' \<mapsto> JStr ''started''],
      st\<lparr>scraping_status := (scraping_status st)(job_id \<mapsto>
         [''status'' \<mapsto> JStr ''pending'', ''progress'' \<mapsto> JInt 0, ''total'' \<mapsto> JInt 0,
          ''current_url'' \<mapsto> JStr []])\<rparr>)"

text \<open>Line 48, and the callback of lines 50 to 56.\<close>

definition job_running :: "string \<Rightarrow> app \<Rightarrow> app" where
  "job_running job_id st =
     st\<lparr>scraping_status := (scraping_status st)(job_id \<mapsto>
        [''status'' \<mapsto> JStr ''running'', ''progress'' \<mapsto> JInt 0, ''total'' \<mapsto> JInt 0,
         ''current_url'' \<mapsto> JStr ''Initializing...''])\<rparr>"

definition progress_callback :: "string \<Rightarrow> int \<Rightarrow> int \<Rightarrow> string \<Rightarrow> app \<Rightarrow> app" where
  "progress_callback job_id current total_items u st =
     st\<lparr>scraping_status := (scraping_status st)(job_id \<mapsto>
        [''status'' \<mapsto> JStr ''running'', ''progress'' \<mapsto> JInt current, ''total'' \<mapsto> JInt total_items,
         ''current_url'' \<mapsto> JStr (if length u > 100 then take 100 u @ ''...'' else u)])\<rparr>"

text \<open>The handler of lines 75 to 83. It reads the status of the job; were there none, the
  \<open>KeyError\<close> of that read would leave \<open>run_scraping_job\<close>.\<close>

definition job_failed :: "string \<Rightarrow> exn \<Rightarrow> app \<Rightarrow> py_exception + app" where
  "job_failed job_id e st =
     (case e of
        Exn message trace \<Rightarrow>
          (case scraping_status st job_id of
             None \<Rightarrow> Inl (KeyError job_id)
           | Some previous \<Rightarrow>
               Inr (st\<lparr>scraping_status := (scraping_status st)(job_id \<mapsto>
                  [''status'' \<mapsto> JStr ''error'', ''error'' \<mapsto> JStr message,
                   ''traceback'' \<mapsto> JStr trace,
                   ''progress'' \<mapsto> dict_get previous ''progress'' (JInt 0),
                   ''total'' \<mapsto> dict_get previous ''total'' (JInt 0)])\<rparr>)))"

text \<open>Lines 67 to 74. A \<open>KeyError\<close> of the read at line 70 would be caught by the handler,
  whose own read raises it again.\<close>

definition job_completed :: "string \<Rightarrow> string listing_data list \<Rightarrow> app \<Rightarrow> py_exception + app" where
  "job_completed job_id all_data st =
     (let st' = st\<lparr>scraped_data_store := (scraped_data_store st)(job_id \<mapsto> all_data)\<rparr> in
      case scraping_status st' job_id of
        None \<Rightarrow> Inl (KeyError job_id)
      | Some previous \<Rightarrow>
          Inr (st'\<lparr>scraping_status := (scraping_status st')(job_id \<mapsto>
             [''status'' \<mapsto> JStr ''completed'',
              ''progress'' \<mapsto> dict_get previous ''progress'' (JInt 0),
              ''total'' \<mapsto> dict_get previous ''total'' (JInt 0),
              ''current_url'' \<mapsto> JStr ''Completed'',
              ''count'' \<mapsto> JInt (int (length all_data))])\<rparr>))"

text \<open>\<open>run_scraping_job\<close>, run from beginning to end with nothing else touching the two
  dictionaries meanwhile. \<open>None\<close>: the pass never returns.\<close>

definition run_scraping_job ::
  "scraper \<Rightarrow> string \<Rightarrow> int option \<Rightarrow> app \<Rightarrow> (py_exception + app) option" where
  "run_scraping_job scraper job_id max_listings st =
     (case scrape_all_listings scraper max_listings (Some (progress_callback job_id)) None
             (job_running job_id st) of
        None \<Rightarrow> None
      | Some (Inr all_data, st') \<Rightarrow> Some (job_completed job_id (map flatten_pictures all_data) st')
      | Some (Inl e, st') \<Rightarrow> Some (job_failed job_id e st'))"

text \<open>The endpoints: \<open>get_scraping_status\<close> (lines 87 to 91), \<open>get_scraped_data\<close> (lines 95
  to 99, the value under the key \<open>data\<close>) and \<open>delete_data\<close> (lines 154 to 160, the value
  under the key \<open>message\<close>). An endpoint raises an \<open>HTTPException\<close> or returns.\<close>

definition get_scraping_status :: "string \<Rightarrow> app \<Rightarrow> http_exception + (string \<rightharpoonup> jvalue)" where
  "get_scraping_status job_id st =
     (case scraping_status st job_id of
        None \<Rightarrow> Inl (HTTPException 404 ''Job not found'')
      | Some status \<Rightarrow> Inr status)"

definition get_scraped_data :: "string \<Rightarrow> app \<Rightarrow> http_exception + string listing_data list" where
  "get_scraped_data job_id st =
     (case scraped_data_store st job_id of
        None \<Rightarrow> Inl (HTTPException 404 ''Data not found'')
      | Some data \<Rightarrow> Inr data)"

definition delete_data :: "string \<Rightarrow> app \<Rightarrow> (http_exception + string) \<times> app" where
  "delete_data job_id st =
     (let st1 = (if job_id \<in> dom (scraped_data_store st)
                 then st\<lparr>scraped_data_store := (scraped_data_store st)(job_id := None)\<rparr>
                 else st);
          st2 = (if job_id \<in> dom (scraping_status st1)
                 then st1\<lparr>scraping_status := (scraping_status st1)(job_id := None)\<rparr>
                 else st1)
      in (Inr ''Data deleted'', st2))"

text \<open>Sample scrapers and states: a scraper that discovers three items, misses the fetch
  of the first and fails on the second; one whose discovery fails; the application with
  nothing stored, and with one finished job.\<close>

definition failing_scraper :: scraper where
  "failing_scraper =
     \<lparr>call_discover_listings = (\<lambda>max_items category_menuid. Some (Inr [''1'', ''2'', ''3''])),
      call_scrape_listing =
        (\<lambda>item_no. if item_no = ''2'' then Inl (Exn ''parser failure'' ''Traceback'')
                    else Inr None)\<rparr>"

definition failing_discovery :: scraper where
  "failing_discovery =
     \<lparr>call_discover_listings =
        (\<lambda>max_items category_menuid. Some (Inl (Exn ''session failure'' ''Traceback''))),
      call_scrape_listing = (\<lambda>item_no. Inr None)\<rparr>"

definition empty_app :: app where
  "empty_app = \<lparr>scraped_data_store = Map.empty, scraping_status = Map.empty\<rparr>"

definition one_job_app :: app where
  "one_job_app =
     \<lparr>scraped_data_store = [''20240101_120000'' \<mapsto> []],
      scraping_status = [''20240101_120000'' \<mapsto>
        [''status'' \<mapsto> JStr ''completed'', ''progress'' \<mapsto> JInt 0, ''total'' \<mapsto> JInt 0,
         ''current_url'' \<mapsto> JStr ''Completed'', ''count'' \<mapsto> JInt 0]]\<rparr>"

text \<open>The application after a job with the id of the finished job of \<open>one_job_app\<close> has
  failed in discovery: the status of the failure, and the result of the earlier job.\<close>

definition stale_error_app :: app where
  "stale_error_app =
     \<lparr>scraped_data_store = [''20240101_120000'' \<mapsto> []],
      scraping_status = [''20240101_120000'' \<mapsto>
        [''status'' \<mapsto> JStr ''error'', ''error'' \<mapsto> JStr ''session failure'',
         ''traceback'' \<mapsto> JStr ''Traceback'', ''progress'' \<mapsto> JInt 0, ''total'' \<mapsto> JInt 0]]\<rparr>"

section \<open>Value cleanup: the two sample inputs\<close>

text \<open>
  C4. The value-cleanup chain, applied in its fixed order, maps
  \<open>Offered at $500 Serial Number 1234567\<close> to the empty string and leaves \<open>Siemens\<close>
  unchanged.
\<close>

theorem clean_value_examples:
  "clean_value ''Offered at $500 Serial Number 1234567'' = '''' \<and>
   clean_value ''Siemens'' = ''Siemens''"
  by code_simp


section \<open>Discovery: the list of identifiers\<close>

lemma collect_item_numbers_distinct:
  "distinct item_numbers \<Longrightarrow> distinct (collect_item_numbers links item_numbers)"
  by (induction links arbitrary: item_numbers) (auto split: option.splits)

lemma py_prefix_distinct: "distinct xs \<Longrightarrow> distinct (py_prefix n xs)"
  by (simp add: py_prefix_def)

lemma max_items_stop_distinct:
  "max_items_stop max_items xs = Some r \<Longrightarrow> distinct xs \<Longrightarrow> distinct r"
  by (auto simp: max_items_stop_def py_prefix_distinct split: option.splits if_splits)

lemma discover_page_Break_distinct:
  "discover_page page max_items s acc = Break r \<Longrightarrow> distinct acc \<Longrightarrow> distinct r"
  by (auto simp: discover_page_def Let_def collect_item_numbers_distinct max_items_stop_distinct
      split: option.splits if_splits)

lemma discover_page_Continue_distinct:
  "discover_page page max_items s acc = Continue s' acc' \<Longrightarrow> distinct acc \<Longrightarrow> distinct acc'"
  by (auto simp: discover_page_def Let_def collect_item_numbers_distinct
      split: option.splits if_splits)

lemma discover_loop_distinct:
  assumes "discover_loop get_soup max_items menuid s acc = Some r"
  shows "distinct acc \<longrightarrow> distinct r"
  using assms
proof (induction rule: discover_loop.raw_induct[rotated 1, consumes 1, case_names step])
  case (step loop get_soup max_items menuid s acc r)
  show ?case
  proof (cases "discover_page (get_soup (all_items_url menuid s)) max_items s acc")
    case (Break r')
    with step show ?thesis by (auto dest: discover_page_Break_distinct)
  next
    case (Continue s' acc')
    with step show ?thesis by (auto dest: discover_page_Continue_distinct)
  qed
qed

lemma ends_discovery_Break:
  "ends_discovery page \<Longrightarrow> \<exists>r. discover_page page max_items s acc = Break r"
  by (auto simp: ends_discovery_def discover_page_def Let_def split: option.splits)

lemma discover_page_Continue_offset:
  "discover_page page max_items s acc = Continue s' acc' \<Longrightarrow> s' = s + items_per_page"
  by (auto simp: discover_page_def Let_def split: option.splits if_splits)

text \<open>The loop returns as soon as one of the offsets it visits holds a page that ends it.\<close>

lemma discover_loop_terminates:
  "ends_discovery (get_soup (all_items_url menuid (s + items_per_page * k))) \<Longrightarrow>
   \<exists>r. discover_loop get_soup max_items menuid s acc = Some r"
proof (induction k arbitrary: s acc)
  case 0
  then obtain r where "discover_page (get_soup (all_items_url menuid s)) max_items s acc = Break r"
    using ends_discovery_Break[of "get_soup (all_items_url menuid s)" max_items s acc] by auto
  then show ?case by (subst discover_loop.simps) simp
next
  case (Suc k)
  show ?case
  proof (cases "discover_page (get_soup (all_items_url menuid s)) max_items s acc")
    case (Break r)
    then show ?thesis by (subst discover_loop.simps) simp
  next
    case (Continue s' acc')
    then have s': "s' = s + items_per_page" by (rule discover_page_Continue_offset)
    with Suc.prems have "ends_discovery (get_soup (all_items_url menuid (s' + items_per_page * k)))"
      by (simp add: add.assoc)
    from Suc.IH[OF this] obtain r where "discover_loop get_soup max_items menuid s' acc' = Some r"
      by blast
    with Continue show ?thesis by (subst discover_loop.simps) simp
  qed
qed

lemma remdups_snoc: "remdups (ys @ [x]) = remdups (filter (\<lambda>y. y \<noteq> x) ys) @ [x]"
  by (induction ys) auto

lemma first_seen_Nil: "first_seen [] = []"
  by (simp add: first_seen_def)

lemma first_seen_Cons: "first_seen (x # xs) = x # first_seen (filter (\<lambda>y. y \<noteq> x) xs)"
  by (simp add: first_seen_def remdups_snoc rev_filter)

lemma collect_item_numbers_first_seen:
  "collect_item_numbers links acc =
     acc @ first_seen (filter (\<lambda>i. i \<notin> set acc) (item_numbers_of links))"
proof (induction links arbitrary: acc)
  case Nil
  then show ?case by (simp add: item_numbers_of_def first_seen_Nil map_filter_simps)
next
  case (Cons link links)
  show ?case
    by (auto simp: Cons.IH item_numbers_of_def map_filter_simps first_seen_Cons conj_commute
        split: option.splits)
qed

lemma collect_item_numbers_seen:
  "set (item_numbers_of links) \<subseteq> set acc \<Longrightarrow> collect_item_numbers links acc = acc"
proof -
  assume "set (item_numbers_of links) \<subseteq> set acc"
  then have "filter (\<lambda>i. i \<notin> set acc) (item_numbers_of links) = []"
    by (auto simp: filter_empty_conv)
  then show ?thesis by (simp add: collect_item_numbers_first_seen first_seen_Nil)
qed

lemma max_items_stop_None_iff:
  "max_items_stop max_items xs = None \<longleftrightarrow>
     (case max_items of None \<Rightarrow> True | Some m \<Rightarrow> m = 0 \<or> int (length xs) < m)"
  by (auto simp: max_items_stop_def split: option.splits)

subsection \<open>Sample runs\<close>

lemma short_page_run:
  "discover_page (one_page_site [item_link ''7'', item_link ''7'', item_link ''8'']
      (all_items_url ''m'' 1)) None 1 [] = Break [''7'', ''8'']"
  by code_simp

lemma short_page_result:
  "discover_listings (one_page_site [item_link ''7'', item_link ''7'', item_link ''8'']) None None
     = Some [''7'', ''8'']"
  unfolding discover_listings_def
  by (subst discover_loop.simps) (simp only: menuid_of_def option.case short_page_run step.case)

lemma five_items_run:
  "discover_page (one_page_site (map item_link [''1'', ''2'', ''3'', ''4'', ''5''])
      (all_items_url ''m'' 1)) (Some 3) 1 [] = Break [''1'', ''2'', ''3'', ''4'', ''5'']"
  by code_simp

lemma full_page_max_run:
  "discover_page (two_page_site (replicate 100 (item_link ''7'')) [item_link ''8'']
      (all_items_url ''m'' 1)) (Some 1) 1 [] = Break [''7'']"
  by code_simp

lemma full_page_run:
  "discover_page (two_page_site (replicate 100 (item_link ''7'')) [item_link ''8'']
      (all_items_url ''m'' 1)) None 1 [] = Continue 101 [''7'']"
  by code_simp

lemma second_page_run:
  "discover_page (two_page_site (replicate 100 (item_link ''7'')) [item_link ''8'']
      (all_items_url ''m'' 101)) None 101 [''7''] = Break [''7'', ''8'']"
  by code_simp

lemma two_pages_result:
  "discover_listings (two_page_site (replicate 100 (item_link ''7'')) [item_link ''8'']) None None
     = Some [''7'', ''8'']"
  unfolding discover_listings_def
  apply (subst discover_loop.simps)
  apply (simp only: menuid_of_def option.case full_page_run step.case)
  apply (subst discover_loop.simps)
  apply (simp only: menuid_of_def option.case second_page_run step.case)
  done

lemma two_pages_max_result:
  "discover_listings (two_page_site (replicate 100 (item_link ''7'')) [item_link ''8'']) (Some 1) None
     = Some [''7'']"
  unfolding discover_listings_def
  by (subst discover_loop.simps) (simp only: menuid_of_def option.case full_page_max_run step.case)

text \<open>
  C1. Discovery with \<open>maxItems = N\<close> returns \<open>min N totalAvailable\<close> identifiers and never
  more than \<open>N\<close>, the \<open>maxItems\<close> test coming before the test for a short page. In the code
  the test for a short page (line 264) comes first and returns without truncating: a site
  whose only page lists five items, asked for at most three, yields all five.
\<close>

theorem discover_listings_exceeds_max_items:
  "discover_listings (one_page_site (map item_link [''1'', ''2'', ''3'', ''4'', ''5''])) (Some 3) None
     = Some [''1'', ''2'', ''3'', ''4'', ''5'']"
  unfolding discover_listings_def
  by (subst discover_loop.simps) (simp only: menuid_of_def option.case five_items_run step.case)

text \<open>
  C5, as the claim states it: after a page of exactly 100 links discovery requests the next
  offset. It does not when \<open>max_items\<close> has been reached: on a site whose first page has
  100 links and whose second page lists a further item, discovery with \<open>max_items = 1\<close>
  breaks on the first page and returns without the item of the second page, which
  discovery without \<open>max_items\<close> does reach.
\<close>

theorem full_page_stops_at_max_items:
  "length (replicate 100 (item_link ''7'')) = 100 \<and>
   discover_page (two_page_site (replicate 100 (item_link ''7'')) [item_link ''8'']
      (all_items_url ''m'' 1)) (Some 1) 1 [] = Break [''7''] \<and>
   discover_listings (two_page_site (replicate 100 (item_link ''7'')) [item_link ''8'']) (Some 1) None
     = Some [''7''] \<and>
   discover_listings (two_page_site (replicate 100 (item_link ''7'')) [item_link ''8'']) None None
     = Some [''7'', ''8'']"
  using full_page_max_run two_pages_max_result two_pages_result by simp

text \<open>
  C5, amended. Let the page at the current offset have been fetched.
  \<^item> If it has exactly 100 links and \<open>max_items\<close> is absent, zero or larger than the number
    of identifiers collected so far, the round continues at the offset plus 100, so the
    loop goes on as the loop from that offset.
  \<^item> If it has exactly 100 links and \<open>max_items\<close> is reached, the loop returns the
    truncated list.
  \<^item> If it has fewer than 100 links, the loop returns after that page.
\<close>

theorem discover_loop_full_and_short_page:
  assumes "get_soup (all_items_url menuid start_rec) = Some doc"
  shows
   "(length (select_item_links doc) = 100 \<and>
     (case max_items of
        None \<Rightarrow> True
      | Some m \<Rightarrow> m = 0 \<or>
          int (length (collect_item_numbers (select_item_links doc) item_numbers)) < m) \<longrightarrow>
       discover_page (Some doc) max_items start_rec item_numbers =
         Continue (start_rec + 100) (collect_item_numbers (select_item_links doc) item_numbers) \<and>
       discover_loop get_soup max_items menuid start_rec item_numbers =
         discover_loop get_soup max_items menuid (start_rec + 100)
           (collect_item_numbers (select_item_links doc) item_numbers)) \<and>
    (length (select_item_links doc) = 100 \<and>
     max_items = Some m \<and> m \<noteq> 0 \<and>
     m \<le> int (length (collect_item_numbers (select_item_links doc) item_numbers)) \<longrightarrow>
       discover_loop get_soup max_items menuid start_rec item_numbers =
         Some (py_prefix m (collect_item_numbers (select_item_links doc) item_numbers))) \<and>
    (length (select_item_links doc) < 100 \<longrightarrow>
       discover_loop get_soup max_items menuid start_rec item_numbers =
         Some (collect_item_numbers (select_item_links doc) item_numbers))"
proof (intro conjI impI)
  let ?acc = "collect_item_numbers (select_item_links doc) item_numbers"
  assume a: "length (select_item_links doc) = 100 \<and>
     (case max_items of None \<Rightarrow> True | Some m \<Rightarrow> m = 0 \<or> int (length ?acc) < m)"
  then have "max_items_stop max_items ?acc = None"
    by (simp add: max_items_stop_None_iff)
  with a show p: "discover_page (Some doc) max_items start_rec item_numbers =
      Continue (start_rec + 100) ?acc"
    by (auto simp: discover_page_def Let_def items_per_page_def)
  show "discover_loop get_soup max_items menuid start_rec item_numbers =
      discover_loop get_soup max_items menuid (start_rec + 100) ?acc"
    by (subst discover_loop.simps) (simp add: assms p)
next
  let ?acc = "collect_item_numbers (select_item_links doc) item_numbers"
  assume a: "length (select_item_links doc) = 100 \<and> max_items = Some m \<and> m \<noteq> 0 \<and>
     m \<le> int (length ?acc)"
  then have "discover_page (Some doc) max_items start_rec item_numbers = Break (py_prefix m ?acc)"
    by (auto simp: discover_page_def Let_def items_per_page_def max_items_stop_def)
  then show "discover_loop get_soup max_items menuid start_rec item_numbers =
      Some (py_prefix m ?acc)"
    by (subst discover_loop.simps) (simp add: assms)
next
  let ?acc = "collect_item_numbers (select_item_links doc) item_numbers"
  assume "length (select_item_links doc) < 100"
  then have "discover_page (Some doc) max_items start_rec item_numbers = Break ?acc"
    by (auto simp: discover_page_def Let_def items_per_page_def)
  then show "discover_loop get_soup max_items menuid start_rec item_numbers = Some ?acc"
    by (subst discover_loop.simps) (simp add: assms)
qed


lemma full_page_fetch:
  "two_page_site (replicate 100 (item_link ''7'')) [item_link ''8''] (all_items_url ''m'' 1)
     = Some (index_page (replicate 100 (item_link ''7'')))"
  by (simp add: two_page_site_def)

lemma short_page_fetch:
  "one_page_site links (all_items_url ''m'' 1) = Some (index_page links)"
  by (simp add: one_page_site_def)

lemma index_page_links: "select_item_links (index_page links) = links"
  by (simp add: index_page_def empty_soup_def)

lemma full_page_collect: "collect_item_numbers (replicate 100 (item_link ''7'')) [] = [''7'']"
  by code_simp

lemma short_page_collect:
  "collect_item_numbers [item_link ''7'', item_link ''7'', item_link ''8''] [] = [''7'', ''8'']"
  by code_simp

theorem discover_loop_full_and_short_page_witness:
  "discover_loop (two_page_site (replicate 100 (item_link ''7'')) [item_link ''8'']) None ''m'' 1 []
     = discover_loop (two_page_site (replicate 100 (item_link ''7'')) [item_link ''8'']) None ''m''
         (1 + 100) [''7''] \<and>
   discover_loop (two_page_site (replicate 100 (item_link ''7'')) [item_link ''8'']) (Some 1) ''m'' 1 []
     = Some [''7''] \<and>
   discover_loop (one_page_site [item_link ''7'', item_link ''7'', item_link ''8'']) None ''m'' 1 []
     = Some [''7'', ''8'']"
proof -
  let ?site = "two_page_site (replicate 100 (item_link ''7'')) [item_link ''8'']"
  let ?links = "[item_link ''7'', item_link ''7'', item_link ''8'']"
  note full = discover_loop_full_and_short_page[where get_soup = ?site and menuid = "''m''"
      and start_rec = 1 and doc = "index_page (replicate 100 (item_link ''7''))"
      and item_numbers = "[]", OF full_page_fetch]
  note short = discover_loop_full_and_short_page[where get_soup = "one_page_site ?links"
      and menuid = "''m''" and start_rec = 1 and doc = "index_page ?links"
      and item_numbers = "[]" and max_items = None, OF short_page_fetch]
  have a: "discover_loop ?site None ''m'' 1 [] = discover_loop ?site None ''m'' (1 + 100) [''7'']"
    using full[where max_items = None, THEN conjunct1]
    by (simp add: index_page_links full_page_collect)
  have b: "discover_loop ?site (Some 1) ''m'' 1 [] = Some [''7'']"
    using full[where max_items = "Some 1" and m = 1, THEN conjunct2, THEN conjunct1]
    by (simp add: index_page_links full_page_collect py_prefix_def)
  have len: "length (select_item_links (index_page ?links)) < 100"
    by (simp add: index_page_links)
  have c: "discover_loop (one_page_site ?links) None ''m'' 1 [] = Some [''7'', ''8'']"
    using short[THEN conjunct2, THEN conjunct2, THEN mp, OF len]
    unfolding index_page_links short_page_collect .
  show ?thesis by (intro conjI) (rule a b c)+
qed

text \<open>
  C9. The list that discovery returns has no duplicates.
  \<^item> Whenever discovery returns a list, the list is distinct; and discovery does return
    one as soon as some offset \<open>1 + 100 k\<close> holds a page that ends the loop (a failed fetch
    or fewer than 100 links).
  \<^item> One page adds to the list collected so far the identifiers of its links that are not
    in the list yet, each once, in the order of their first occurrence; the list so far
    stays in front, unchanged.
  \<^item> A page of 100 links whose identifiers have all been seen adds nothing and still
    counts as a full page: the loop continues at the next offset.
  \<^item> A first page that fails or has no links gives the empty list, returned as a value.
\<close>

theorem discover_listings_distinct:
  "(discover_listings get_soup max_items category_menuid = Some r \<longrightarrow> distinct r) \<and>
   ((\<exists>k. ends_discovery
            (get_soup (all_items_url (menuid_of category_menuid) (1 + items_per_page * k)))) \<longrightarrow>
      (\<exists>r. discover_listings get_soup max_items category_menuid = Some r \<and> distinct r)) \<and>
   collect_item_numbers links item_numbers =
     item_numbers @ first_seen (filter (\<lambda>i. i \<notin> set item_numbers) (item_numbers_of links)) \<and>
   (length (select_item_links doc) = 100 \<and>
    set (item_numbers_of (select_item_links doc)) \<subseteq> set item_numbers \<and>
    max_items_stop max_items item_numbers = None \<longrightarrow>
      discover_page (Some doc) max_items start_rec item_numbers =
        Continue (start_rec + 100) item_numbers) \<and>
   ((case get_soup (all_items_url (menuid_of category_menuid) 1) of
       None \<Rightarrow> True
     | Some first_page \<Rightarrow> select_item_links first_page = []) \<longrightarrow>
      discover_listings get_soup max_items category_menuid = Some [])"
proof (intro conjI impI)
  assume "discover_listings get_soup max_items category_menuid = Some r"
  then show "distinct r"
    using discover_loop_distinct[of get_soup max_items "menuid_of category_menuid" 1 "[]" r]
    by (simp add: discover_listings_def)
next
  assume "\<exists>k. ends_discovery
            (get_soup (all_items_url (menuid_of category_menuid) (1 + items_per_page * k)))"
  then obtain k where "ends_discovery
            (get_soup (all_items_url (menuid_of category_menuid) (1 + items_per_page * k)))" ..
  from discover_loop_terminates[where get_soup = get_soup
      and menuid = "menuid_of category_menuid" and s = 1 and k = k and max_items = max_items
      and acc = "[]", OF this]
  obtain r where r: "discover_loop get_soup max_items (menuid_of category_menuid) 1 [] = Some r"
    by blast
  with discover_loop_distinct[OF r] show
    "\<exists>r. discover_listings get_soup max_items category_menuid = Some r \<and> distinct r"
    by (simp add: discover_listings_def)
next
  show "collect_item_numbers links item_numbers =
     item_numbers @ first_seen (filter (\<lambda>i. i \<notin> set item_numbers) (item_numbers_of links))"
    by (rule collect_item_numbers_first_seen)
next
  assume "length (select_item_links doc) = 100 \<and>
    set (item_numbers_of (select_item_links doc)) \<subseteq> set item_numbers \<and>
    max_items_stop max_items item_numbers = None"
  then show "discover_page (Some doc) max_items start_rec item_numbers =
        Continue (start_rec + 100) item_numbers"
    by (auto simp: discover_page_def Let_def items_per_page_def collect_item_numbers_seen)
next
  assume "case get_soup (all_items_url (menuid_of category_menuid) 1) of
       None \<Rightarrow> True
     | Some first_page \<Rightarrow> select_item_links first_page = []"
  then have "\<exists>r. discover_page (get_soup (all_items_url (menuid_of category_menuid) 1))
      max_items 1 [] = Break []"
    by (auto simp: discover_page_def split: option.splits)
  then show "discover_listings get_soup max_items category_menuid = Some []"
    unfolding discover_listings_def by (subst discover_loop.simps) auto
qed

lemma seen_page_item_numbers:
  "set (item_numbers_of (replicate 100 (item_link ''7''))) \<subseteq> set [''7'']"
  by code_simp

lemma short_page_ends:
  "ends_discovery (one_page_site [item_link ''7'', item_link ''7'', item_link ''8'']
     (all_items_url (menuid_of None) (1 + items_per_page * 1)))"
  by code_simp

theorem discover_listings_distinct_witness:
  "discover_listings (one_page_site [item_link ''7'', item_link ''7'', item_link ''8'']) None None
     = Some [''7'', ''8''] \<and>
   distinct [''7'', ''8''] \<and>
   (\<exists>r. discover_listings (one_page_site [item_link ''7'', item_link ''7'', item_link ''8''])
           None None = Some r \<and> distinct r) \<and>
   collect_item_numbers [item_link ''7'', item_link ''7'', item_link ''8''] [] =
     first_seen (item_numbers_of [item_link ''7'', item_link ''7'', item_link ''8'']) \<and>
   discover_page (Some (index_page (replicate 100 (item_link ''7'')))) None 1 [''7'']
     = Continue (1 + 100) [''7''] \<and>
   discover_listings (one_page_site []) None None = Some []"
proof -
  let ?links = "[item_link ''7'', item_link ''7'', item_link ''8'']"
  let ?full = "index_page (replicate 100 (item_link ''7''))"
  note T = discover_listings_distinct[where get_soup = "one_page_site ?links"
      and max_items = None and category_menuid = None and r = "[''7'', ''8'']"
      and links = ?links and item_numbers = "[]" and doc = ?full and start_rec = 1]
  note U = discover_listings_distinct[where get_soup = "one_page_site []"
      and max_items = None and category_menuid = None and r = "[]"
      and links = "[]" and item_numbers = "[''7'']" and doc = ?full and start_rec = 1]
  have a: "distinct [''7'', ''8'']"
    using T[THEN conjunct1] short_page_result by (rule mp)
  have b: "\<exists>r. discover_listings (one_page_site ?links) None None = Some r \<and> distinct r"
    using T[THEN conjunct2, THEN conjunct1] short_page_ends by blast
  have c: "collect_item_numbers ?links [] = first_seen (item_numbers_of ?links)"
    using T[THEN conjunct2, THEN conjunct2, THEN conjunct1] by simp
  have d: "discover_page (Some ?full) None 1 [''7''] = Continue (1 + 100) [''7'']"
    using U[THEN conjunct2, THEN conjunct2, THEN conjunct2, THEN conjunct1] seen_page_item_numbers
    by (simp add: index_page_links max_items_stop_def)
  have p: "case one_page_site [] (all_items_url (menuid_of None) 1) of
      None \<Rightarrow> True | Some first_page \<Rightarrow> select_item_links first_page = []"
    by (simp only: menuid_of_def option.case short_page_fetch index_page_links)
  have e: "discover_listings (one_page_site []) None None = Some []"
    using U[THEN conjunct2, THEN conjunct2, THEN conjunct2, THEN conjunct2, THEN mp, OF p] .
  show ?thesis by (intro conjI) (rule short_page_result a b c d e)+
qed


section \<open>Extraction: pictures, defaults and table fields\<close>

lemma fetch_detail_site: "detail_site doc (listing_url ''255419'') = Some doc"
  by (simp add: detail_site_def)

lemma preview_only_pictures:
  "extract_pictures urljoin preview_only_page =
     [urljoin BASE_URL ''clientresources/item255419.jpg'',
      urljoin BASE_URL ''clientresources/item255419.jpg'']"
proof -
  have stripped: "strip_query ''clientresources/item255419.jpg?v=1'' = ''clientresources/item255419.jpg''"
    by code_simp
  have marker: "contains_ci ''clientresources'' ''clientresources/item255419.jpg?v=1''"
    by code_simp
  have ext: "has_image_extension ''clientresources/item255419.jpg''"
    by code_simp
  have imgs: "clientresources_imgs preview_only_page = [preview_img]"
    by (simp add: clientresources_imgs_def preview_only_page_def empty_soup_def preview_img_def marker)
  have main: "add_main_image urljoin (select_imgprev preview_only_page) ([], {}) =
      ([urljoin BASE_URL ''clientresources/item255419.jpg''], {''clientresources/item255419.jpg''})"
    by (simp add: add_main_image_def preview_only_page_def empty_soup_def preview_img_def stripped
        Let_def)
  have addl: "select_addlImage preview_only_page = []"
    by (simp add: preview_only_page_def empty_soup_def)
  show ?thesis
    by (simp add: extract_pictures_def imgs main addl preview_img_def stripped ext Let_def)
qed

text \<open>
  C2. The pictures of a record hold no normalized URL twice. The code tests membership in
  \<open>seen_urls\<close> on the attribute as written and records the attribute with its query
  string cut, so a source with a query string is never found there: the page whose one
  image is the preview image \<open>clientresources/item255419.jpg?v=1\<close> gets that image from
  method 1 and again from the fallback scan of method 3.
\<close>

theorem scrape_listing_duplicate_picture:
  "map_option pictures (scrape_listing urljoin (detail_site preview_only_page) ''255419'') =
     Some [urljoin BASE_URL ''clientresources/item255419.jpg'',
           urljoin BASE_URL ''clientresources/item255419.jpg''] \<and>
   \<not> distinct [urljoin BASE_URL ''clientresources/item255419.jpg'',
                urljoin BASE_URL ''clientresources/item255419.jpg'']"
  by (simp add: scrape_listing_def fetch_detail_site extract_listing_def preview_only_pictures Let_def)

subsection \<open>The table pass\<close>

lemma row_pair_code:
  "row_pair cells =
     (case cells of
        c0 # c1 # _ \<Rightarrow>
          (if label_text_of c0 \<noteq> [] \<and> value_text_of c1 \<noteq> []
           then Some (label_text_of c0, value_text_of c1) else None)
      | _ \<Rightarrow> None)"
  by (simp add: row_pair_def Let_def label_text_of_def value_text_of_def extract_text_def
      split: list.splits option.splits)

lemma collect_table_pairs:
  "collect_table rows all_data = all_data ++ map_of (rev (table_pairs rows))"
proof (induction rows arbitrary: all_data)
  case Nil
  then show ?case by (simp add: table_pairs_def)
next
  case (Cons cells rows)
  show ?case
  proof (cases "row_pair cells")
    case None
    then have step: "collect_table (cells # rows) all_data = collect_table rows all_data"
      by (auto simp: row_pair_code Let_def split: list.splits if_splits)
    from None have tp: "table_pairs (cells # rows) = table_pairs rows"
      by (simp add: table_pairs_def)
    show ?thesis unfolding step tp by (rule Cons.IH)
  next
    case (Some p)
    obtain a b where p: "p = (a, b)" by (cases p)
    from Some p have step:
      "collect_table (cells # rows) all_data = collect_table rows (all_data(a \<mapsto> b))"
      by (auto simp: row_pair_code Let_def split: list.splits if_splits)
    from Some p have tp: "table_pairs (cells # rows) = (a, b) # table_pairs rows"
      by (simp add: table_pairs_def)
    show ?thesis unfolding step tp Cons.IH
      by (rule ext) (simp add: map_add_def split: option.splits)
  qed
qed

lemma map_of_rev_last:
  "map_of (rev ps) k =
     (case filter (\<lambda>p. fst p = k) ps of [] \<Rightarrow> None | q # qs \<Rightarrow> Some (snd (last (q # qs))))"
proof (induction ps rule: rev_induct)
  case Nil
  then show ?case by simp
next
  case (snoc p ps)
  then show ?case by (cases p) (auto split: list.splits)
qed

lemma dict_get_collect_table:
  "dict_get (collect_table rows Map.empty) k [] = last_value k (table_pairs rows)"
  by (simp add: collect_table_pairs dict_get_def last_value_def map_of_rev_last split: list.splits)

lemma collect_table_lookup:
  "collect_table rows Map.empty k =
     (if k \<in> fst ` set (table_pairs rows) then Some (last_value k (table_pairs rows)) else None)"
proof -
  have "filter (\<lambda>p. fst p = k) (table_pairs rows) = [] \<longleftrightarrow> k \<notin> fst ` set (table_pairs rows)"
    by (auto simp: filter_empty_conv)
  then show ?thesis
    by (auto simp: collect_table_pairs last_value_def map_of_rev_last split: list.splits)
qed

lemma last_value_absent: "k \<notin> fst ` set pairs \<Longrightarrow> last_value k pairs = []"
proof -
  assume "k \<notin> fst ` set pairs"
  then have "filter (\<lambda>p. fst p = k) pairs = []" by (auto simp: filter_empty_conv)
  then show ?thesis by (simp add: last_value_def)
qed

lemma table_pairs_nonempty: "p \<in> set (table_pairs rows) \<Longrightarrow> fst p \<noteq> [] \<and> snd p \<noteq> []"
proof (induction rows)
  case Nil
  then show ?case by (simp add: table_pairs_def)
next
  case (Cons cells rows)
  then show ?case
    by (auto simp: table_pairs_def row_pair_code split: option.splits list.splits if_splits)
qed


subsection \<open>Fields that nothing fills\<close>




lemma extract_category_no_links: "select_menubar soup = [] \<Longrightarrow> extract_category soup = []"
  by (simp add: extract_category_def)












lemma nested_page_pairs:
  "table_pairs (find_all_tr nested_page) = [(''unit price'', ''500'')]"
  by code_simp

lemma nested_page_cell_text_pairs:
  "cell_text_pairs (find_all_tr nested_page) =
     [(''unit price(eur)'', ''500''), (''manufacturer'', ''Siemens'')]"
  by code_simp

lemma price_last_value:
  "price (extract_listing urljoin item_no soup) =
     last_value ''unit price'' (table_pairs (find_all_tr soup))"
  by (simp add: extract_listing_def Let_def dict_get_collect_table)

lemma manufacturer_last_value:
  "manufacturer (extract_listing urljoin item_no soup) =
     last_value ''manufacturer'' (table_pairs (find_all_tr soup))"
  by (simp add: extract_listing_def Let_def dict_get_collect_table)

lemma plain_cells_pairs:
  "\<forall>cells \<in> set rows. \<forall>c \<in> set cells. find_txtb c = None \<and> find_txt c = None \<Longrightarrow>
   table_pairs rows = cell_text_pairs rows"
proof (induction rows)
  case Nil
  then show ?case by (simp add: table_pairs_def cell_text_pairs_def)
next
  case (Cons cells rows)
  then have "row_pair cells = cell_text_pair cells"
    by (auto simp: row_pair_def cell_text_pair_def split: list.splits)
  with Cons show ?case by (simp add: table_pairs_def cell_text_pairs_def split: option.splits)
qed

text \<open>
  C10, as the claim states it: a pair is recorded when the lower-cased text of the first
  cell and the text of the second cell are both non-empty, and a field is the value of
  the last such row with its label. The code reads the label from the element of class
  \<open>txtb\<close> inside the first cell and the value from the element of class \<open>txt\<close> inside the
  second cell when there is one. On the page with the rows
  \<open><td><span class="txtb">Unit Price</span>(EUR)</td><td>500</td>\<close> and
  \<open><td>Manufacturer</td><td><span class="txt"></span>Siemens</td>\<close> the price is \<open>500\<close>
  though no first cell has the text \<open>unit price\<close>, and the manufacturer is empty though
  the row of the cell texts \<open>manufacturer\<close> and \<open>Siemens\<close> has both non-empty.
\<close>

theorem table_fields_not_from_cell_texts:
  "cell_text_pairs (find_all_tr nested_page) =
     [(''unit price(eur)'', ''500''), (''manufacturer'', ''Siemens'')] \<and>
   price (extract_listing simple_urljoin ''255419'' nested_page) = ''500'' \<and>
   last_value ''unit price'' (cell_text_pairs (find_all_tr nested_page)) = [] \<and>
   manufacturer (extract_listing simple_urljoin ''255419'' nested_page) = [] \<and>
   last_value ''manufacturer'' (cell_text_pairs (find_all_tr nested_page)) = ''Siemens''"
  by (simp add: price_last_value manufacturer_last_value nested_page_pairs
      nested_page_cell_text_pairs last_value_def)

text \<open>
  C10, amended. The table pass goes once over the rows. A row with at least two cells
  gives the pair of its label text (the text of the element of class \<open>txtb\<close> inside the
  first cell, or of the first cell when it has none, stripped and lower-cased) and its
  value text (the text of the element of class \<open>txt\<close> inside the second cell, or of the
  second cell when it has none, stripped); the pair is recorded only when both are
  non-empty. A later pair with the same label replaces the earlier one, so the dictionary
  holds under each label the value of the last recorded pair with that label, and nothing
  under a label that no recorded pair has. The five fields are read under the keys
  \<open>manufacturer\<close>, \<open>model\<close>, \<open>year of manufacture\<close>, \<open>condition\<close> and \<open>unit price\<close>, with
  the empty string for a missing key. When no cell nests an element of class \<open>txtb\<close> or
  \<open>txt\<close>, the pairs are those of the cell texts.
\<close>

theorem table_fields_last_row:
  "(\<forall>p \<in> set (table_pairs rows). fst p \<noteq> [] \<and> snd p \<noteq> []) \<and>
   collect_table rows Map.empty label =
     (if label \<in> fst ` set (table_pairs rows) then Some (last_value label (table_pairs rows))
      else None) \<and>
   (label \<notin> fst ` set (table_pairs rows) \<longrightarrow> last_value label (table_pairs rows) = []) \<and>
   manufacturer (extract_listing urljoin item_no soup) =
     last_value ''manufacturer'' (table_pairs (find_all_tr soup)) \<and>
   model (extract_listing urljoin item_no soup) =
     last_value ''model'' (table_pairs (find_all_tr soup)) \<and>
   year_of_manufacturer (extract_listing urljoin item_no soup) =
     last_value ''year of manufacture'' (table_pairs (find_all_tr soup)) \<and>
   condition (extract_listing urljoin item_no soup) =
     last_value ''condition'' (table_pairs (find_all_tr soup)) \<and>
   price (extract_listing urljoin item_no soup) =
     last_value ''unit price'' (table_pairs (find_all_tr soup)) \<and>
   ((\<forall>cells \<in> set rows. \<forall>c \<in> set cells. find_txtb c = None \<and> find_txt c = None) \<longrightarrow>
      table_pairs rows = cell_text_pairs rows)"
proof (intro conjI)
  show "\<forall>p \<in> set (table_pairs rows). fst p \<noteq> [] \<and> snd p \<noteq> []"
    using table_pairs_nonempty by blast
  show "collect_table rows Map.empty label =
     (if label \<in> fst ` set (table_pairs rows) then Some (last_value label (table_pairs rows))
      else None)"
    by (rule collect_table_lookup)
  show "label \<notin> fst ` set (table_pairs rows) \<longrightarrow> last_value label (table_pairs rows) = []"
    by (simp add: last_value_absent)
  show "(\<forall>cells \<in> set rows. \<forall>c \<in> set cells. find_txtb c = None \<and> find_txt c = None) \<longrightarrow>
      table_pairs rows = cell_text_pairs rows"
    using plain_cells_pairs by blast
qed (simp_all add: extract_listing_def Let_def dict_get_collect_table)

lemma table_page_pairs:
  "table_pairs (find_all_tr table_page) = [(''model'', ''A 100''), (''model'', ''B 200'')]"
  by code_simp

lemma table_page_plain:
  "\<forall>cells \<in> set (find_all_tr table_page). \<forall>c \<in> set cells. find_txtb c = None \<and> find_txt c = None"
  by code_simp

theorem table_fields_last_row_witness:
  "table_pairs (find_all_tr table_page) = [(''model'', ''A 100''), (''model'', ''B 200'')] \<and>
   cell_text_pairs (find_all_tr table_page) = [(''model'', ''A 100''), (''model'', ''B 200'')] \<and>
   collect_table (find_all_tr table_page) Map.empty ''model'' = Some ''B 200'' \<and>
   collect_table (find_all_tr table_page) Map.empty ''manufacturer'' = None \<and>
   model (extract_listing simple_urljoin ''255419'' table_page) = ''B 200'' \<and>
   manufacturer (extract_listing simple_urljoin ''255419'' table_page) = [] \<and>
   year_of_manufacturer (extract_listing simple_urljoin ''255419'' table_page) = [] \<and>
   condition (extract_listing simple_urljoin ''255419'' table_page) = [] \<and>
   price (extract_listing simple_urljoin ''255419'' table_page) = [] \<and>
   price (extract_listing simple_urljoin ''255419'' nested_page) = ''500'' \<and>
   manufacturer (extract_listing simple_urljoin ''255419'' nested_page) = []"
proof -
  note T = table_fields_last_row[where rows = "find_all_tr table_page" and soup = table_page
      and urljoin = simple_urljoin and item_no = "''255419''"]
  note N = table_fields_last_row[where rows = "find_all_tr nested_page" and soup = nested_page
      and urljoin = simple_urljoin and item_no = "''255419''" and label = "''unit price''"]
  have m: "last_value ''model'' [(''model'', ''A 100''), (''model'', ''B 200'')] = ''B 200''"
    by (simp add: last_value_def)
  have n: "last_value k [(''model'', ''A 100''), (''model'', ''B 200'')] = []" if "k \<noteq> ''model''" for k
    using that by (auto simp: last_value_def)
  have a: "collect_table (find_all_tr table_page) Map.empty ''model'' = Some ''B 200''"
    using T[where label = "''model''", THEN conjunct2, THEN conjunct1]
    by (simp add: table_page_pairs m)
  have b: "collect_table (find_all_tr table_page) Map.empty ''manufacturer'' = None"
    using T[where label = "''manufacturer''", THEN conjunct2, THEN conjunct1]
    by (simp add: table_page_pairs)
  from T[where label = "''model''"] have f:
    "model (extract_listing simple_urljoin ''255419'' table_page) = ''B 200'' \<and>
     manufacturer (extract_listing simple_urljoin ''255419'' table_page) = [] \<and>
     year_of_manufacturer (extract_listing simple_urljoin ''255419'' table_page) = [] \<and>
     condition (extract_listing simple_urljoin ''255419'' table_page) = [] \<and>
     price (extract_listing simple_urljoin ''255419'' table_page) = []"
    by (simp add: table_page_pairs m n)
  from T[where label = "''model''"] table_page_plain
  have p: "cell_text_pairs (find_all_tr table_page) = [(''model'', ''A 100''), (''model'', ''B 200'')]"
    by (simp add: table_page_pairs)
  from N have g:
    "price (extract_listing simple_urljoin ''255419'' nested_page) = ''500'' \<and>
     manufacturer (extract_listing simple_urljoin ''255419'' nested_page) = []"
    by (simp add: nested_page_pairs last_value_def)
  from table_page_pairs p a b f g show ?thesis by (intro conjI) simp_all
qed

section \<open>Jobs: completion, failure, deletion\<close>

lemma progress_callback_twice:
  "progress_callback job_id a b c (progress_callback job_id a' b' c' st) =
     progress_callback job_id a b c st"
  by (simp add: progress_callback_def)

lemma progress_callback_running:
  "progress_callback job_id a b c (job_running job_id st) = progress_callback job_id a b c st"
  by (simp add: progress_callback_def job_running_def)

text \<open>When the item at index \<open>k\<close> is the first whose scrape raises, the loop ends there, and the
  state is the one that the callback for that item wrote.\<close>

lemma scrape_each_fails_at:
  "k < length items \<Longrightarrow>
   (\<forall>i<k. \<exists>listing. scrape (items ! i) = Inr listing) \<Longrightarrow>
   scrape (items ! k) = Inl e \<Longrightarrow>
   scrape_each scrape (Some (progress_callback job_id)) n i items all_data st =
     (Inl e, progress_callback job_id (int (i + k + 1)) (int n) (''Item '' @ items ! k) st)"
proof (induction items arbitrary: k i all_data st)
  case Nil
  then show ?case by simp
next
  case (Cons x xs)
  show ?case
  proof (cases k)
    case 0
    with Cons.prems show ?thesis by simp
  next
    case (Suc k')
    from Cons.prems(2) Suc obtain listing where x: "scrape x = Inr listing"
      by fastforce
    have k': "k' < length xs" using Cons.prems(1) Suc by simp
    have ok: "\<forall>i<k'. \<exists>listing. scrape (xs ! i) = Inr listing"
    proof (intro allI impI)
      fix i assume "i < k'"
      then have "Suc i < k" using Suc by simp
      with Cons.prems(2) have "\<exists>listing. scrape ((x # xs) ! Suc i) = Inr listing" by blast
      then show "\<exists>listing. scrape (xs ! i) = Inr listing" by simp
    qed
    have bad: "scrape (xs ! k') = Inl e" using Cons.prems(3) Suc by simp
    note IH = Cons.IH[OF k' ok bad]
    show ?thesis
      by (cases listing) (simp_all add: x IH Suc progress_callback_twice)
  qed
qed

lemma no_links_result: "discover_listings (one_page_site []) None None = Some []"
proof -
  have "discover_page (one_page_site [] (all_items_url ''m'' 1)) None 1 [] = Break []"
    unfolding short_page_fetch by (simp add: discover_page_def index_page_links)
  then show ?thesis
    unfolding discover_listings_def
    by (subst discover_loop.simps) (simp only: menuid_of_def option.case step.case)
qed

text \<open>
  C6. A job whose pass runs to completion with no identifier discovered ends with status
  \<open>completed\<close>, the counters at zero and the count zero, and with the empty list stored as
  its result, which \<open>get_scraped_data\<close> returns.
\<close>

theorem job_without_listings_completes:
  assumes "call_discover_listings scraper max_listings None = Some (Inr [])"
  shows "\<exists>st'. run_scraping_job scraper job_id max_listings st = Some (Inr st') \<and>
     scraping_status st' job_id =
       Some [''status'' \<mapsto> JStr ''completed'', ''progress'' \<mapsto> JInt 0, ''total'' \<mapsto> JInt 0,
             ''current_url'' \<mapsto> JStr ''Completed'', ''count'' \<mapsto> JInt 0] \<and>
     scraped_data_store st' job_id = Some [] \<and>
     get_scraped_data job_id st' = Inr [] \<and>
     get_scraping_status job_id st' =
       Inr [''status'' \<mapsto> JStr ''completed'', ''progress'' \<mapsto> JInt 0, ''total'' \<mapsto> JInt 0,
            ''current_url'' \<mapsto> JStr ''Completed'', ''count'' \<mapsto> JInt 0]"
proof -
  have pass: "scrape_all_listings scraper max_listings (Some (progress_callback job_id)) None
      (job_running job_id st) = Some (Inr [], job_running job_id st)"
    by (simp add: scrape_all_listings_def assms)
  have run: "run_scraping_job scraper job_id max_listings st =
      Some (job_completed job_id [] (job_running job_id st))"
    by (simp add: run_scraping_job_def pass)
  show ?thesis
    unfolding run
    by (simp add: job_completed_def job_running_def dict_get_def get_scraped_data_def
        get_scraping_status_def Let_def)
qed

theorem job_without_listings_completes_witness:
  "\<exists>st'. run_scraping_job (SurplusScraper simple_urljoin (one_page_site [])) ''20240101_120000''
            None empty_app = Some (Inr st') \<and>
     scraping_status st' ''20240101_120000'' =
       Some [''status'' \<mapsto> JStr ''completed'', ''progress'' \<mapsto> JInt 0, ''total'' \<mapsto> JInt 0,
             ''current_url'' \<mapsto> JStr ''Completed'', ''count'' \<mapsto> JInt 0] \<and>
     scraped_data_store st' ''20240101_120000'' = Some [] \<and>
     get_scraped_data ''20240101_120000'' st' = Inr [] \<and>
     get_scraping_status ''20240101_120000'' st' =
       Inr [''status'' \<mapsto> JStr ''completed'', ''progress'' \<mapsto> JInt 0, ''total'' \<mapsto> JInt 0,
            ''current_url'' \<mapsto> JStr ''Completed'', ''count'' \<mapsto> JInt 0]"
proof -
  have "call_discover_listings (SurplusScraper simple_urljoin (one_page_site [])) None None =
      Some (Inr [])"
    by (simp add: SurplusScraper_def no_links_result)
  then show ?thesis by (rule job_without_listings_completes)
qed


lemma scrape_all_listings_fails_at:
  assumes "call_discover_listings scraper max_listings None = Some (Inr item_numbers)"
    and "k < length item_numbers"
    and "\<forall>i<k. \<exists>listing. call_scrape_listing scraper (item_numbers ! i) = Inr listing"
    and "call_scrape_listing scraper (item_numbers ! k) = Inl e"
  shows "scrape_all_listings scraper max_listings (Some (progress_callback job_id)) None
           (job_running job_id st) =
         Some (Inl e, progress_callback job_id (int k + 1) (int (length item_numbers))
                        (''Item '' @ item_numbers ! k) st)"
  using scrape_each_fails_at[OF assms(2) assms(3) assms(4), of job_id "length item_numbers" 0 "[]"
      "job_running job_id st"]
  by (simp add: scrape_all_listings_def assms(1) progress_callback_running add.commute)

lemma first_job_completes:
  "run_scraping_job (SurplusScraper simple_urljoin (one_page_site [])) ''20240101_120000'' None
     (snd (start_scraping ''20240101_120000'' empty_app)) = Some (Inr one_job_app)"
proof -
  have d: "call_discover_listings (SurplusScraper simple_urljoin (one_page_site [])) None None =
      Some (Inr [])"
    by (simp add: SurplusScraper_def no_links_result)
  have pass: "scrape_all_listings (SurplusScraper simple_urljoin (one_page_site [])) None
      (Some (progress_callback ''20240101_120000'')) None
      (job_running ''20240101_120000'' (snd (start_scraping ''20240101_120000'' empty_app))) =
      Some (Inr [], job_running ''20240101_120000''
                      (snd (start_scraping ''20240101_120000'' empty_app)))"
    by (simp add: scrape_all_listings_def d)
  show ?thesis
    unfolding run_scraping_job_def pass
    by (simp add: job_completed_def job_running_def start_scraping_def
        empty_app_def one_job_app_def dict_get_def Let_def)
qed

lemma second_job_fails:
  "run_scraping_job failing_discovery ''20240101_120000'' None
     (snd (start_scraping ''20240101_120000'' one_job_app)) = Some (Inr stale_error_app)"
proof -
  have pass: "scrape_all_listings failing_discovery None
      (Some (progress_callback ''20240101_120000'')) None
      (job_running ''20240101_120000'' (snd (start_scraping ''20240101_120000'' one_job_app))) =
      Some (Inl (Exn ''session failure'' ''Traceback''),
            job_running ''20240101_120000'' (snd (start_scraping ''20240101_120000'' one_job_app)))"
    by (simp add: scrape_all_listings_def failing_discovery_def)
  show ?thesis
    unfolding run_scraping_job_def pass
    by (simp add: job_failed_def job_running_def start_scraping_def
        one_job_app_def stale_error_app_def dict_get_def)
qed

text \<open>
  C7, as the claim states it: after a job whose pass raised, \<open>get_scraped_data\<close> for the job
  fails. It returns a result when one is stored under the job id, and the handler of the
  failure leaves the store as it is: a job started with the id of a job that completed
  (the id is the clock reading to the second) and failing in discovery ends with status
  \<open>error\<close>, and \<open>get_scraped_data\<close> returns the empty result of the earlier job.
\<close>

theorem failed_job_keeps_stored_result:
  "run_scraping_job (SurplusScraper simple_urljoin (one_page_site [])) ''20240101_120000'' None
     (snd (start_scraping ''20240101_120000'' empty_app)) = Some (Inr one_job_app) \<and>
   run_scraping_job failing_discovery ''20240101_120000'' None
     (snd (start_scraping ''20240101_120000'' one_job_app)) = Some (Inr stale_error_app) \<and>
   scraping_status stale_error_app ''20240101_120000'' =
     Some [''status'' \<mapsto> JStr ''error'', ''error'' \<mapsto> JStr ''session failure'',
           ''traceback'' \<mapsto> JStr ''Traceback'', ''progress'' \<mapsto> JInt 0, ''total'' \<mapsto> JInt 0] \<and>
   get_scraped_data ''20240101_120000'' stale_error_app = Inr []"
  by (simp add: first_job_completes second_job_fails stale_error_app_def get_scraped_data_def)

text \<open>
  C7, amended. If the pass raises, the job ends with status \<open>error\<close>, the message and the
  trace of the exception, and the counters last written: zero and zero when discovery
  raised; \<open>k + 1\<close> and the number of discovered items when the extraction of the item at
  index \<open>k\<close> raised after the items before it returned. The result store is left as it
  was, so \<open>get_scraped_data\<close> answers for the job what it answered before the job ran: it
  fails with status code 404 when no result was stored under the job id.
\<close>

theorem failed_job_ends_in_error:
   "(call_discover_listings scraper max_listings None = Some (Inl (Exn message trace)) \<longrightarrow>
       (\<exists>st'. run_scraping_job scraper job_id max_listings st = Some (Inr st') \<and>
          scraping_status st' job_id =
            Some [''status'' \<mapsto> JStr ''error'', ''error'' \<mapsto> JStr message,
                  ''traceback'' \<mapsto> JStr trace, ''progress'' \<mapsto> JInt 0, ''total'' \<mapsto> JInt 0] \<and>
          scraped_data_store st' = scraped_data_store st \<and>
          get_scraped_data job_id st' = get_scraped_data job_id st \<and>
          (scraped_data_store st job_id = None \<longrightarrow>
             get_scraped_data job_id st' = Inl (HTTPException 404 ''Data not found'')))) \<and>
    (call_discover_listings scraper max_listings None = Some (Inr item_numbers) \<and>
     k < length item_numbers \<and>
     (\<forall>i<k. \<exists>listing. call_scrape_listing scraper (item_numbers ! i) = Inr listing) \<and>
     call_scrape_listing scraper (item_numbers ! k) = Inl (Exn message trace) \<longrightarrow>
       (\<exists>st'. run_scraping_job scraper job_id max_listings st = Some (Inr st') \<and>
          scraping_status st' job_id =
            Some [''status'' \<mapsto> JStr ''error'', ''error'' \<mapsto> JStr message,
                  ''traceback'' \<mapsto> JStr trace, ''progress'' \<mapsto> JInt (int k + 1),
                  ''total'' \<mapsto> JInt (int (length item_numbers))] \<and>
          scraped_data_store st' = scraped_data_store st \<and>
          get_scraped_data job_id st' = get_scraped_data job_id st \<and>
          (scraped_data_store st job_id = None \<longrightarrow>
             get_scraped_data job_id st' = Inl (HTTPException 404 ''Data not found''))))"
proof (intro conjI impI)
  assume d: "call_discover_listings scraper max_listings None = Some (Inl (Exn message trace))"
  have run: "run_scraping_job scraper job_id max_listings st =
      Some (job_failed job_id (Exn message trace) (job_running job_id st))"
    by (simp add: run_scraping_job_def scrape_all_listings_def d)
  show "\<exists>st'. run_scraping_job scraper job_id max_listings st = Some (Inr st') \<and>
          scraping_status st' job_id =
            Some [''status'' \<mapsto> JStr ''error'', ''error'' \<mapsto> JStr message,
                  ''traceback'' \<mapsto> JStr trace, ''progress'' \<mapsto> JInt 0, ''total'' \<mapsto> JInt 0] \<and>
          scraped_data_store st' = scraped_data_store st \<and>
          get_scraped_data job_id st' = get_scraped_data job_id st \<and>
          (scraped_data_store st job_id = None \<longrightarrow>
             get_scraped_data job_id st' = Inl (HTTPException 404 ''Data not found''))"
    unfolding run
    by (simp add: job_failed_def job_running_def dict_get_def get_scraped_data_def)
next
  assume a: "call_discover_listings scraper max_listings None = Some (Inr item_numbers) \<and>
     k < length item_numbers \<and>
     (\<forall>i<k. \<exists>listing. call_scrape_listing scraper (item_numbers ! i) = Inr listing) \<and>
     call_scrape_listing scraper (item_numbers ! k) = Inl (Exn message trace)"
  then have pass: "scrape_all_listings scraper max_listings (Some (progress_callback job_id)) None
           (job_running job_id st) =
         Some (Inl (Exn message trace),
               progress_callback job_id (int k + 1) (int (length item_numbers))
                 (''Item '' @ item_numbers ! k) st)"
    using scrape_all_listings_fails_at[of scraper max_listings item_numbers k "Exn message trace"
        job_id st]
    by blast
  have run: "run_scraping_job scraper job_id max_listings st =
      Some (job_failed job_id (Exn message trace)
              (progress_callback job_id (int k + 1) (int (length item_numbers))
                 (''Item '' @ item_numbers ! k) st))"
    by (simp add: run_scraping_job_def pass)
  show "\<exists>st'. run_scraping_job scraper job_id max_listings st = Some (Inr st') \<and>
          scraping_status st' job_id =
            Some [''status'' \<mapsto> JStr ''error'', ''error'' \<mapsto> JStr message,
                  ''traceback'' \<mapsto> JStr trace, ''progress'' \<mapsto> JInt (int k + 1),
                  ''total'' \<mapsto> JInt (int (length item_numbers))] \<and>
          scraped_data_store st' = scraped_data_store st \<and>
          get_scraped_data job_id st' = get_scraped_data job_id st \<and>
          (scraped_data_store st job_id = None \<longrightarrow>
             get_scraped_data job_id st' = Inl (HTTPException 404 ''Data not found''))"
    unfolding run
    by (simp add: job_failed_def progress_callback_def dict_get_def get_scraped_data_def)
qed

lemma empty_app_no_data: "scraped_data_store empty_app ''20240101_120000'' = None"
  by (simp add: empty_app_def)

theorem failed_job_ends_in_error_witness:
  "(\<exists>st'. run_scraping_job failing_discovery ''20240101_120000'' None empty_app = Some (Inr st') \<and>
      scraping_status st' ''20240101_120000'' =
        Some [''status'' \<mapsto> JStr ''error'', ''error'' \<mapsto> JStr ''session failure'',
              ''traceback'' \<mapsto> JStr ''Traceback'', ''progress'' \<mapsto> JInt 0, ''total'' \<mapsto> JInt 0] \<and>
      scraped_data_store st' = scraped_data_store empty_app \<and>
      get_scraped_data ''20240101_120000'' st' = Inl (HTTPException 404 ''Data not found'')) \<and>
   (\<exists>st'. run_scraping_job failing_scraper ''20240101_120000'' None empty_app = Some (Inr st') \<and>
      scraping_status st' ''20240101_120000'' =
        Some [''status'' \<mapsto> JStr ''error'', ''error'' \<mapsto> JStr ''parser failure'',
              ''traceback'' \<mapsto> JStr ''Traceback'', ''progress'' \<mapsto> JInt 2, ''total'' \<mapsto> JInt 3] \<and>
      scraped_data_store st' = scraped_data_store empty_app \<and>
      get_scraped_data ''20240101_120000'' st' = Inl (HTTPException 404 ''Data not found''))"
proof (rule conjI)
  have d: "call_discover_listings failing_discovery None None =
      Some (Inl (Exn ''session failure'' ''Traceback''))"
    by (simp add: failing_discovery_def)
  from failed_job_ends_in_error[where scraper = failing_discovery and st = empty_app
      and job_id = "''20240101_120000''"
      and max_listings = None and message = "''session failure''" and trace = "''Traceback''",
      THEN conjunct1, THEN mp, OF d]
  obtain st' where
    "run_scraping_job failing_discovery ''20240101_120000'' None empty_app = Some (Inr st')"
    "scraping_status st' ''20240101_120000'' =
        Some [''status'' \<mapsto> JStr ''error'', ''error'' \<mapsto> JStr ''session failure'',
              ''traceback'' \<mapsto> JStr ''Traceback'', ''progress'' \<mapsto> JInt 0, ''total'' \<mapsto> JInt 0]"
    "scraped_data_store st' = scraped_data_store empty_app"
    "scraped_data_store empty_app ''20240101_120000'' = None \<longrightarrow>
       get_scraped_data ''20240101_120000'' st' = Inl (HTTPException 404 ''Data not found'')"
    by (elim exE conjE) (rule that)
  with empty_app_no_data
  show "\<exists>st'. run_scraping_job failing_discovery ''20240101_120000'' None empty_app = Some (Inr st') \<and>
      scraping_status st' ''20240101_120000'' =
        Some [''status'' \<mapsto> JStr ''error'', ''error'' \<mapsto> JStr ''session failure'',
              ''traceback'' \<mapsto> JStr ''Traceback'', ''progress'' \<mapsto> JInt 0, ''total'' \<mapsto> JInt 0] \<and>
      scraped_data_store st' = scraped_data_store empty_app \<and>
      get_scraped_data ''20240101_120000'' st' = Inl (HTTPException 404 ''Data not found'')"
    by (intro exI[of _ st'] conjI) simp_all
next
  have h: "call_discover_listings failing_scraper None None = Some (Inr [''1'', ''2'', ''3'']) \<and>
     1 < length [''1'', ''2'', ''3''] \<and>
     (\<forall>i<1. \<exists>listing. call_scrape_listing failing_scraper ([''1'', ''2'', ''3''] ! i) = Inr listing) \<and>
     call_scrape_listing failing_scraper ([''1'', ''2'', ''3''] ! 1) =
       Inl (Exn ''parser failure'' ''Traceback'')"
    by (simp add: failing_scraper_def)
  from failed_job_ends_in_error[where scraper = failing_scraper and st = empty_app
      and job_id = "''20240101_120000''"
      and max_listings = None and message = "''parser failure''" and trace = "''Traceback''"
      and item_numbers = "[''1'', ''2'', ''3'']" and k = 1,
      THEN conjunct2, THEN mp, OF h]
  obtain st' where
    "run_scraping_job failing_scraper ''20240101_120000'' None empty_app = Some (Inr st')"
    "scraping_status st' ''20240101_120000'' =
        Some [''status'' \<mapsto> JStr ''error'', ''error'' \<mapsto> JStr ''parser failure'',
              ''traceback'' \<mapsto> JStr ''Traceback'', ''progress'' \<mapsto> JInt (int 1 + 1),
              ''total'' \<mapsto> JInt (int (length [''1'', ''2'', ''3'']))]"
    "scraped_data_store st' = scraped_data_store empty_app"
    "scraped_data_store empty_app ''20240101_120000'' = None \<longrightarrow>
       get_scraped_data ''20240101_120000'' st' = Inl (HTTPException 404 ''Data not found'')"
    by (elim exE conjE) (rule that)
  with empty_app_no_data
  show "\<exists>st'. run_scraping_job failing_scraper ''20240101_120000'' None empty_app = Some (Inr st') \<and>
      scraping_status st' ''20240101_120000'' =
        Some [''status'' \<mapsto> JStr ''error'', ''error'' \<mapsto> JStr ''parser failure'',
              ''traceback'' \<mapsto> JStr ''Traceback'', ''progress'' \<mapsto> JInt 2, ''total'' \<mapsto> JInt 3] \<and>
      scraped_data_store st' = scraped_data_store empty_app \<and>
      get_scraped_data ''20240101_120000'' st' = Inl (HTTPException 404 ''Data not found'')"
    by (intro exI[of _ st'] conjI) simp_all
qed

text \<open>
  C8. \<open>delete_data\<close> returns its message on every job id and every state, and leaves both
  dictionaries without an entry for the id and otherwise as they were; so afterwards
  \<open>get_scraping_status\<close> and \<open>get_scraped_data\<close> both fail with status code 404. On an id
  with no entry in either dictionary the state is unchanged, and deleting again changes
  nothing.
\<close>

theorem delete_data_removes_job:
  "\<exists>st'. delete_data job_id st = (Inr ''Data deleted'', st') \<and>
     scraped_data_store st' = (scraped_data_store st)(job_id := None) \<and>
     scraping_status st' = (scraping_status st)(job_id := None) \<and>
     get_scraping_status job_id st' = Inl (HTTPException 404 ''Job not found'') \<and>
     get_scraped_data job_id st' = Inl (HTTPException 404 ''Data not found'') \<and>
     (scraped_data_store st job_id = None \<and> scraping_status st job_id = None \<longrightarrow> st' = st) \<and>
     delete_data job_id st' = (Inr ''Data deleted'', st')"
proof -
  have absent: "m(job_id := None) = m" if "job_id \<notin> dom m" for m :: "string \<rightharpoonup> 'v"
    using that by (auto simp: fun_eq_iff)
  show ?thesis
    by (cases st)
      (auto simp: delete_data_def Let_def get_scraping_status_def get_scraped_data_def absent
         domIff)
qed

theorem delete_data_removes_job_witness:
  "(\<exists>st'. delete_data ''20240101_120000'' one_job_app = (Inr ''Data deleted'', st') \<and>
      scraped_data_store st' = Map.empty \<and> scraping_status st' = Map.empty \<and>
      get_scraping_status ''20240101_120000'' st' = Inl (HTTPException 404 ''Job not found'') \<and>
      get_scraped_data ''20240101_120000'' st' = Inl (HTTPException 404 ''Data not found'')) \<and>
   (\<exists>st'. delete_data ''unknown'' one_job_app = (Inr ''Data deleted'', st') \<and> st' = one_job_app \<and>
      get_scraping_status ''unknown'' st' = Inl (HTTPException 404 ''Job not found'') \<and>
      get_scraped_data ''unknown'' st' = Inl (HTTPException 404 ''Data not found''))"
proof (rule conjI)
  from delete_data_removes_job[of "''20240101_120000''" one_job_app]
  show "\<exists>st'. delete_data ''20240101_120000'' one_job_app = (Inr ''Data deleted'', st') \<and>
      scraped_data_store st' = Map.empty \<and> scraping_status st' = Map.empty \<and>
      get_scraping_status ''20240101_120000'' st' = Inl (HTTPException 404 ''Job not found'') \<and>
      get_scraped_data ''20240101_120000'' st' = Inl (HTTPException 404 ''Data not found'')"
    by (elim exE conjE) (rule exI, simp add: one_job_app_def)
next
  have u: "scraped_data_store one_job_app ''unknown'' = None \<and>
      scraping_status one_job_app ''unknown'' = None"
    by (simp add: one_job_app_def)
  from delete_data_removes_job[of "''unknown''" one_job_app] u
  show "\<exists>st'. delete_data ''unknown'' one_job_app = (Inr ''Data deleted'', st') \<and> st' = one_job_app \<and>
      get_scraping_status ''unknown'' st' = Inl (HTTPException 404 ''Job not found'') \<and>
      get_scraped_data ''unknown'' st' = Inl (HTTPException 404 ''Data not found'')"
    by (elim exE conjE) (rule exI, simp)
qed

end
